theory Spec2Isabelle
  imports Main
begin

section \<open>The no-cache development server\<close>

text \<open>
  The program is \<^verbatim>\<open>serve.py\<close>: a subclass \<^verbatim>\<open>NoCacheHandler\<close> of
  \<^verbatim>\<open>http.server.SimpleHTTPRequestHandler\<close> that overrides \<^verbatim>\<open>end_headers\<close>, and a
  main block that builds an \<^verbatim>\<open>http.server.HTTPServer\<close> on \<^verbatim>\<open>('127.0.0.1', 3000)\<close>,
  prints one line and calls \<^verbatim>\<open>serve_forever\<close>.

  The override is four calls into the inherited handler, so the embedding has two layers:
  the methods of \<^verbatim>\<open>serve.py\<close> itself (\<open>end_headers\<close>, \<open>main\<close>), and the inherited
  methods they call or are called by, translated from the CPython 3.11 standard library
  (\<^verbatim>\<open>http/server.py\<close>, \<^verbatim>\<open>socketserver.py\<close>). Every method that calls
  \<^verbatim>\<open>self.end_headers()\<close> takes the class's \<open>end_headers\<close> as its first argument, so the
  same definition runs under the base class and under \<^verbatim>\<open>NoCacheHandler\<close>.

  What the model leaves out: the access log on standard error (\<^verbatim>\<open>log_request\<close>,
  \<^verbatim>\<open>log_error\<close>), and failures of the socket itself while writing.
\<close>

subsection \<open>Bytes and text\<close>

text \<open>
  A \<open>char\<close> is one byte, so a \<open>string\<close> is both a Python \<^verbatim>\<open>bytes\<close> and a Python
  \<^verbatim>\<open>str\<close> whose code points are below 256; on these \<^verbatim>\<open>encode('latin-1', 'strict')\<close> is
  the identity and never raises.
\<close>

definition CRLF :: string where
  "CRLF = [CHR 0x0D, CHR 0x0A]"

definition NL :: string where
  "NL = [CHR 0x0A]"

definition DQ :: string where
  "DQ = [CHR 0x22]"

text \<open>\<^verbatim>\<open>str.lower()\<close> on code points below 256: A-Z and the Latin-1 capitals
  (0xC0-0xDE without the multiplication sign 0xD7) move up by 32.\<close>

definition lower_char :: "char \<Rightarrow> char" where
  "lower_char c =
     (let n = (of_char c :: nat)
      in if (65 \<le> n \<and> n \<le> 90) \<or> (192 \<le> n \<and> n \<le> 222 \<and> n \<noteq> 215)
         then char_of (n + 32) else c)"

definition lower :: "string \<Rightarrow> string" where
  "lower s = map lower_char s"

text \<open>\<^verbatim>\<open>str(n)\<close> and \<^verbatim>\<open>"%d" % n\<close> for a natural number.\<close>

fun str_nat :: "nat \<Rightarrow> string" where
  "str_nat n =
     (if n < 10 then [char_of (48 + n)]
      else str_nat (n div 10) @ [char_of (48 + n mod 10)])"

declare str_nat.simps [simp del]

text \<open>\<^verbatim>\<open>html.escape(s, quote=False)\<close>: the three replacements, \<^verbatim>\<open>&\<close> first, which
  amounts to replacing each character on its own.\<close>

definition escape_char :: "char \<Rightarrow> string" where
  "escape_char c =
     (if c = CHR ''&'' then ''&amp;''
      else if c = CHR ''<'' then ''&lt;''
      else if c = CHR ''>'' then ''&gt;''
      else [c])"

definition escape :: "string \<Rightarrow> string" where
  "escape s = concat (map escape_char s)"

text \<open>\<^verbatim>\<open>encode('UTF-8', 'replace')\<close> on code points below 256: one byte below 128, two
  bytes from 128 on.\<close>

definition utf8_char :: "char \<Rightarrow> string" where
  "utf8_char c =
     (let n = (of_char c :: nat)
      in if n < 128 then [c] else [char_of (192 + n div 64), char_of (128 + n mod 64)])"

definition utf8 :: "string \<Rightarrow> string" where
  "utf8 s = concat (map utf8_char s)"

subsection \<open>The handler object\<close>

text \<open>
  The attributes of a request handler that the response path reads or writes.
  \<open>headers_buffer\<close> is \<^verbatim>\<open>self._headers_buffer\<close>, \<open>None\<close> while the attribute does not
  exist (the code tests \<^verbatim>\<open>hasattr\<close>); \<open>wfile\<close> is every byte written to the client so
  far; \<open>command\<close> is \<open>None\<close> after a parse error; \<open>headers\<close> are the request's headers;
  \<open>directory\<close> is the document root.
\<close>

record handler =
  directory :: string
  request_version :: string
  command :: "string option"
  path :: string
  headers :: "(string \<times> string) list"
  close_connection :: bool
  headers_buffer :: "string list option"
  wfile :: string

datatype py_error = AttributeError | OSError

text \<open>A call either returns a value or raises; in both cases the handler is left in the
  state the call reached.\<close>

datatype 'a outcome = Return 'a handler | Raise py_error handler

definition protocol_version :: string where
  "protocol_version = ''HTTP/1.0''"

definition default_request_version :: string where
  "default_request_version = ''HTTP/0.9''"

text \<open>
  The idiom shared by \<^verbatim>\<open>send_response_only\<close> and \<^verbatim>\<open>send_header\<close>:
  \<^verbatim>\<open>
  if not hasattr(self, '_headers_buffer'):
      self._headers_buffer = []
  self._headers_buffer.append(line)
  \<close>
\<close>

definition buffer_append :: "string \<Rightarrow> handler \<Rightarrow> handler" where
  "buffer_append line h =
     h\<lparr>headers_buffer :=
         Some ((case headers_buffer h of None \<Rightarrow> [] | Some b \<Rightarrow> b) @ [line])\<rparr>"

text \<open>
  \<^verbatim>\<open>
  def send_header(self, keyword, value):
      if self.request_version != 'HTTP/0.9':
          if not hasattr(self, '_headers_buffer'):
              self._headers_buffer = []
          self._headers_buffer.append(
              ("%s: %s\r\n" % (keyword, value)).encode('latin-1', 'strict'))
      if keyword.lower() == 'connection':
          if value.lower() == 'close':
              self.close_connection = True
          elif value.lower() == 'keep-alive':
              self.close_connection = False
  \<close>
\<close>

definition header_line :: "string \<Rightarrow> string \<Rightarrow> string" where
  "header_line keyword val = keyword @ '': '' @ val @ CRLF"

definition send_header :: "string \<Rightarrow> string \<Rightarrow> handler \<Rightarrow> handler" where
  "send_header keyword val h =
     (let h1 = (if request_version h \<noteq> ''HTTP/0.9''
                then buffer_append (header_line keyword val) h else h)
      in if lower keyword = ''connection''
         then (if lower val = ''close'' then h1\<lparr>close_connection := True\<rparr>
               else if lower val = ''keep-alive'' then h1\<lparr>close_connection := False\<rparr>
               else h1)
         else h1)"

text \<open>
  \<^verbatim>\<open>
  def flush_headers(self):
      if hasattr(self, '_headers_buffer'):
          self.wfile.write(b"".join(self._headers_buffer))
          self._headers_buffer = []
  \<close>
\<close>

definition flush_headers :: "handler \<Rightarrow> handler" where
  "flush_headers h =
     (case headers_buffer h of
        None \<Rightarrow> h
      | Some b \<Rightarrow> h\<lparr>wfile := wfile h @ concat b, headers_buffer := Some []\<rparr>)"

text \<open>
  The inherited \<^verbatim>\<open>BaseHTTPRequestHandler.end_headers\<close>, which the override reaches
  through \<^verbatim>\<open>super()\<close>:
  \<^verbatim>\<open>
  def end_headers(self):
      if self.request_version != 'HTTP/0.9':
          self._headers_buffer.append(b"\r\n")
          self.flush_headers()
  \<close>
  Appending to a buffer that was never created raises \<^verbatim>\<open>AttributeError\<close>.
\<close>

definition base_end_headers :: "handler \<Rightarrow> unit outcome" where
  "base_end_headers h =
     (if request_version h \<noteq> ''HTTP/0.9''
      then (case headers_buffer h of
              None \<Rightarrow> Raise AttributeError h
            | Some b \<Rightarrow> Return () (flush_headers (h\<lparr>headers_buffer := Some (b @ [CRLF])\<rparr>)))
      else Return () h)"

text \<open>
  \<^verbatim>\<open>serve.py\<close>, lines 4 to 9:
  \<^verbatim>\<open>
  class NoCacheHandler(http.server.SimpleHTTPRequestHandler):
      def end_headers(self):
          self.send_header('Cache-Control', 'no-cache, no-store, must-revalidate')
          self.send_header('Pragma', 'no-cache')
          self.send_header('Expires', '0')
          super().end_headers()
  \<close>
\<close>

definition end_headers :: "handler \<Rightarrow> unit outcome" where
  "end_headers h =
     base_end_headers
       (send_header ''Expires'' ''0''
         (send_header ''Pragma'' ''no-cache''
           (send_header ''Cache-Control'' ''no-cache, no-store, must-revalidate'' h)))"

text \<open>The three header lines the specification names, as they stand on the wire.\<close>

definition no_cache_lines :: "string list" where
  "no_cache_lines =
     [''Cache-Control: no-cache, no-store, must-revalidate'' @ CRLF,
      ''Pragma: no-cache'' @ CRLF,
      ''Expires: 0'' @ CRLF]"

text \<open>The lines waiting in the buffer (none when the buffer does not exist).\<close>

definition buffered :: "handler \<Rightarrow> string list" where
  "buffered h = (case headers_buffer h of None \<Rightarrow> [] | Some b \<Rightarrow> b)"

subsection \<open>Status line and standard headers\<close>

text \<open>
  What the response path reads from outside the handler object: the file system under the
  document root, the clock, and the library routines whose results only pass through
  (URL unquoting and normalisation, MIME guessing, date formatting, \<^verbatim>\<open>repr\<close>).
  They are fields of a \<open>world\<close>, so every theorem holds for all of them.
  \<^item> \<open>translate\<close> is the body of \<^verbatim>\<open>translate_path\<close> applied to \<^verbatim>\<open>self.directory\<close> and
    \<^verbatim>\<open>self.path\<close>;
  \<^item> \<open>open_rb\<close> is \<^verbatim>\<open>open(path, 'rb')\<close> followed by \<^verbatim>\<open>os.fstat\<close>, \<open>None\<close> for
    \<^verbatim>\<open>OSError\<close>;
  \<^item> \<open>listing\<close> is the page \<^verbatim>\<open>list_directory\<close> renders from \<^verbatim>\<open>os.listdir\<close>, already
    encoded, \<open>None\<close> for \<^verbatim>\<open>OSError\<close>;
  \<^item> \<open>parse_ims\<close> is \<^verbatim>\<open>email.utils.parsedate_to_datetime\<close> on an If-Modified-Since
    value: \<open>Some t\<close> for a date without timezone or in UTC, \<open>t\<close> seconds after the epoch,
    \<open>None\<close> for an ill-formed value or another timezone;
  \<^item> \<open>responses\<close> is the class attribute of that name, from \<^verbatim>\<open>http.HTTPStatus\<close>.
\<close>

text \<open>
  A readable binary stream: \<open>data\<close> are the bytes it holds; \<open>read_fails = Some n\<close> means
  that reading raises \<^verbatim>\<open>OSError\<close> once \<open>n\<close> bytes have been copied. An opened file
  is its stream with the two \<^verbatim>\<open>fstat\<close> fields \<^verbatim>\<open>send_head\<close> reads, the modification time
  in whole seconds (the code drops the microseconds).
\<close>

record reader =
  data :: string
  read_fails :: "nat option"

record file_obj =
  contents :: reader
  st_size :: nat
  st_mtime :: int

record world =
  translate :: "string \<Rightarrow> string \<Rightarrow> string"
  isdir :: "string \<Rightarrow> bool"
  isfile :: "string \<Rightarrow> bool"
  open_rb :: "string \<Rightarrow> file_obj option"
  listing :: "string \<Rightarrow> string \<Rightarrow> string option"
  url_path :: "string \<Rightarrow> string"
  redirect_url :: "string \<Rightarrow> string"
  guess_type :: "string \<Rightarrow> string"
  getfilesystemencoding :: string
  parse_ims :: "string \<Rightarrow> int option"
  formatdate :: "int \<Rightarrow> string"
  time_now :: int
  version_string :: string
  responses :: "nat \<Rightarrow> (string \<times> string) option"
  py_repr :: "string \<Rightarrow> string"

text \<open>
  \<^verbatim>\<open>
  def send_response_only(self, code, message=None):
      if self.request_version != 'HTTP/0.9':
          if message is None:
              if code in self.responses:
                  message = self.responses[code][0]
              else:
                  message = ''
          if not hasattr(self, '_headers_buffer'):
              self._headers_buffer = []
          self._headers_buffer.append(("%s %d %s\r\n" %
                  (self.protocol_version, code, message)).encode(
                      'latin-1', 'strict'))
  \<close>
\<close>

definition status_line :: "nat \<Rightarrow> string \<Rightarrow> string" where
  "status_line code message =
     protocol_version @ '' '' @ str_nat code @ '' '' @ message @ CRLF"

definition send_response_only :: "world \<Rightarrow> nat \<Rightarrow> string option \<Rightarrow> handler \<Rightarrow> handler" where
  "send_response_only w code message h =
     (if request_version h \<noteq> ''HTTP/0.9''
      then (let m = (case message of
                       Some m \<Rightarrow> m
                     | None \<Rightarrow> (case responses w code of Some (short, _) \<Rightarrow> short | None \<Rightarrow> []))
            in buffer_append (status_line code m) h)
      else h)"

text \<open>
  \<^verbatim>\<open>
  def send_response(self, code, message=None):
      self.log_request(code)
      self.send_response_only(code, message)
      self.send_header('Server', self.version_string())
      self.send_header('Date', self.date_time_string())
  \<close>
\<close>

definition send_response :: "world \<Rightarrow> nat \<Rightarrow> string option \<Rightarrow> handler \<Rightarrow> handler" where
  "send_response w code message h =
     send_header ''Date'' (formatdate w (time_now w))
       (send_header ''Server'' (version_string w)
         (send_response_only w code message h))"

subsection \<open>Error responses\<close>

text \<open>The template \<^verbatim>\<open>DEFAULT_ERROR_MESSAGE\<close>, filled in as \<^verbatim>\<open>send_error\<close> does.\<close>

definition error_message_format :: "nat \<Rightarrow> string \<Rightarrow> string \<Rightarrow> string" where
  "error_message_format code message explain =
     ''<!DOCTYPE HTML>'' @ NL @
     ''<html lang='' @ DQ @ ''en'' @ DQ @ ''>'' @ NL @
     ''    <head>'' @ NL @
     ''        <meta charset='' @ DQ @ ''utf-8'' @ DQ @ ''>'' @ NL @
     ''        <title>Error response</title>'' @ NL @
     ''    </head>'' @ NL @
     ''    <body>'' @ NL @
     ''        <h1>Error response</h1>'' @ NL @
     ''        <p>Error code: '' @ str_nat code @ ''</p>'' @ NL @
     ''        <p>Message: '' @ message @ ''.</p>'' @ NL @
     ''        <p>Error code explanation: '' @ str_nat code @ '' - '' @ explain @ ''.</p>'' @ NL @
     ''    </body>'' @ NL @
     ''</html>'' @ NL"

definition error_content_type :: string where
  "error_content_type = ''text/html;charset=utf-8''"

text \<open>
  \<^verbatim>\<open>
  def send_error(self, code, message=None, explain=None):
      try:
          shortmsg, longmsg = self.responses[code]
      except KeyError:
          shortmsg, longmsg = '???', '???'
      if message is None:
          message = shortmsg
      if explain is None:
          explain = longmsg
      self.log_error("code %d, message %s", code, message)
      self.send_response(code, message)
      self.send_header('Connection', 'close')
      body = None
      if (code >= 200 and
          code not in (HTTPStatus.NO_CONTENT,
                       HTTPStatus.RESET_CONTENT,
                       HTTPStatus.NOT_MODIFIED)):
          content = (self.error_message_format % {
              'code': code,
              'message': html.escape(message, quote=False),
              'explain': html.escape(explain, quote=False)
          })
          body = content.encode('UTF-8', 'replace')
          self.send_header("Content-Type", self.error_content_type)
          self.send_header('Content-Length', str(len(body)))
      self.end_headers()

      if self.command != 'HEAD' and body:
          self.wfile.write(body)
  \<close>
  The message and the explanation after the defaults, and the body of the error page,
  \<open>None\<close> where the code sends none:
\<close>

definition error_message :: "world \<Rightarrow> nat \<Rightarrow> string option \<Rightarrow> string" where
  "error_message w code message =
     (case message of
        Some m \<Rightarrow> m
      | None \<Rightarrow> (case responses w code of Some (shortmsg, longmsg) \<Rightarrow> shortmsg | None \<Rightarrow> ''???''))"

definition error_explain :: "world \<Rightarrow> nat \<Rightarrow> string option \<Rightarrow> string" where
  "error_explain w code explain =
     (case explain of
        Some x \<Rightarrow> x
      | None \<Rightarrow> (case responses w code of Some (shortmsg, longmsg) \<Rightarrow> longmsg | None \<Rightarrow> ''???''))"

definition error_body :: "world \<Rightarrow> nat \<Rightarrow> string option \<Rightarrow> string option \<Rightarrow> string option" where
  "error_body w code message explain =
     (if code \<ge> 200 \<and> code \<notin> {204, 205, 304}
      then Some (utf8 (error_message_format code
                         (escape (error_message w code message))
                         (escape (error_explain w code explain))))
      else None)"

definition send_error ::
  "(handler \<Rightarrow> unit outcome) \<Rightarrow> world \<Rightarrow> nat \<Rightarrow> string option \<Rightarrow> string option \<Rightarrow> handler \<Rightarrow> unit outcome" where
  "send_error eh w code message explain h =
     (let h1 = send_header ''Connection'' ''close''
                 (send_response w code (Some (error_message w code message)) h);
          body = error_body w code message explain;
          h2 = (case body of
                  None \<Rightarrow> h1
                | Some b \<Rightarrow> send_header ''Content-Length'' (str_nat (length b))
                             (send_header ''Content-Type'' error_content_type h1))
      in case eh h2 of
           Raise e h3 \<Rightarrow> Raise e h3
         | Return _ h3 \<Rightarrow>
             (case body of
                None \<Rightarrow> Return () h3
              | Some b \<Rightarrow>
                  if command h3 \<noteq> Some ''HEAD'' \<and> b \<noteq> []
                  then Return () (h3\<lparr>wfile := wfile h3 @ b\<rparr>)
                  else Return () h3))"

subsection \<open>Serving files and directories\<close>

text \<open>Lookup in the request's headers, as \<^verbatim>\<open>email.message.Message\<close> does it: the first
  field whose name matches without regard to case.\<close>

definition hdr_get :: "(string \<times> string) list \<Rightarrow> string \<Rightarrow> string option" where
  "hdr_get hs name = map_of (map (\<lambda>(k, v). (lower k, v)) hs) (lower name)"

definition ends_with_slash :: "string \<Rightarrow> bool" where
  "ends_with_slash s = (s \<noteq> [] \<and> last s = CHR ''/'')"

text \<open>\<^verbatim>\<open>os.path.join(path, name)\<close> on POSIX, for a relative \<open>name\<close>.\<close>

definition path_join :: "string \<Rightarrow> string \<Rightarrow> string" where
  "path_join p name = (if p = [] \<or> ends_with_slash p then p @ name else p @ ''/'' @ name)"

text \<open>
  \<^verbatim>\<open>
  for index in "index.html", "index.htm":
      index = os.path.join(path, index)
      if os.path.isfile(index):
          path = index
          break
  else:
      return self.list_directory(path)
  \<close>
\<close>

definition find_index :: "world \<Rightarrow> string \<Rightarrow> string option" where
  "find_index w p =
     (if isfile w (path_join p ''index.html'') then Some (path_join p ''index.html'')
      else if isfile w (path_join p ''index.htm'') then Some (path_join p ''index.htm'')
      else None)"

text \<open>
  The test that sends 304 in \<^verbatim>\<open>send_head\<close>:
  \<^verbatim>\<open>
  if ("If-Modified-Since" in self.headers
          and "If-None-Match" not in self.headers):
      try:
          ims = email.utils.parsedate_to_datetime(
              self.headers["If-Modified-Since"])
      except (TypeError, IndexError, OverflowError, ValueError):
          pass
      else:
          if ims.tzinfo is None:
              ims = ims.replace(tzinfo=datetime.timezone.utc)
          if ims.tzinfo is datetime.timezone.utc:
              last_modif = datetime.datetime.fromtimestamp(
                  fs.st_mtime, datetime.timezone.utc)
              last_modif = last_modif.replace(microsecond=0)
              if last_modif <= ims:
  \<close>
\<close>

definition not_modified :: "world \<Rightarrow> handler \<Rightarrow> file_obj \<Rightarrow> bool" where
  "not_modified w h f =
     (case hdr_get (headers h) ''If-Modified-Since'' of
        None \<Rightarrow> False
      | Some v \<Rightarrow>
          (case hdr_get (headers h) ''If-None-Match'' of
             Some _ \<Rightarrow> False
           | None \<Rightarrow> (case parse_ims w v of None \<Rightarrow> False | Some ims \<Rightarrow> st_mtime f \<le> ims)))"

text \<open>
  \<^verbatim>\<open>list_directory\<close>: \<^verbatim>\<open>os.listdir\<close> failing is answered with 404; otherwise the rendered
  page is announced with 200 and returned as a \<^verbatim>\<open>BytesIO\<close>.
  \<^verbatim>\<open>
  try:
      list = os.listdir(path)
  except OSError:
      self.send_error(HTTPStatus.NOT_FOUND, "No permission to list directory")
      return None
  ...
  self.send_response(HTTPStatus.OK)
  self.send_header("Content-type", "text/html; charset=%s" % enc)
  self.send_header("Content-Length", str(len(encoded)))
  self.end_headers()
  return f
  \<close>
\<close>

definition list_directory ::
  "(handler \<Rightarrow> unit outcome) \<Rightarrow> world \<Rightarrow> string \<Rightarrow> handler \<Rightarrow> reader option outcome" where
  "list_directory eh w p h =
     (case listing w p (path h) of
        None \<Rightarrow>
          (case send_error eh w 404 (Some ''No permission to list directory'') None h of
             Raise e h1 \<Rightarrow> Raise e h1
           | Return _ h1 \<Rightarrow> Return None h1)
      | Some encoded \<Rightarrow>
          (case eh (send_header ''Content-Length'' (str_nat (length encoded))
                     (send_header ''Content-type''
                        (''text/html; charset='' @ getfilesystemencoding w)
                        (send_response w 200 None h))) of
             Raise e h1 \<Rightarrow> Raise e h1
           | Return _ h1 \<Rightarrow> Return (Some \<lparr>data = encoded, read_fails = None\<rparr>) h1))"

text \<open>
  The second half of \<^verbatim>\<open>send_head\<close>, from \<^verbatim>\<open>ctype = self.guess_type(path)\<close> on, which
  both a plain file and a directory's index file reach:
  \<^verbatim>\<open>
  ctype = self.guess_type(path)
  if path.endswith("/"):
      self.send_error(HTTPStatus.NOT_FOUND, "File not found")
      return None
  try:
      f = open(path, 'rb')
  except OSError:
      self.send_error(HTTPStatus.NOT_FOUND, "File not found")
      return None
  try:
      fs = os.fstat(f.fileno())
      (the If-Modified-Since test)
                      self.send_response(HTTPStatus.NOT_MODIFIED)
                      self.end_headers()
                      f.close()
                      return None
      self.send_response(HTTPStatus.OK)
      self.send_header("Content-type", ctype)
      self.send_header("Content-Length", str(fs[6]))
      self.send_header("Last-Modified",
          self.date_time_string(fs.st_mtime))
      self.end_headers()
      return f
  except:
      f.close()
      raise
  \<close>
\<close>

definition send_file ::
  "(handler \<Rightarrow> unit outcome) \<Rightarrow> world \<Rightarrow> string \<Rightarrow> handler \<Rightarrow> reader option outcome" where
  "send_file eh w p h =
     (let ctype = guess_type w p
      in if ends_with_slash p
         then (case send_error eh w 404 (Some ''File not found'') None h of
                 Raise e h1 \<Rightarrow> Raise e h1
               | Return _ h1 \<Rightarrow> Return None h1)
         else (case open_rb w p of
                 None \<Rightarrow>
                   (case send_error eh w 404 (Some ''File not found'') None h of
                      Raise e h1 \<Rightarrow> Raise e h1
                    | Return _ h1 \<Rightarrow> Return None h1)
               | Some f \<Rightarrow>
                   if not_modified w h f
                   then (case eh (send_response w 304 None h) of
                           Raise e h1 \<Rightarrow> Raise e h1
                         | Return _ h1 \<Rightarrow> Return None h1)
                   else (case eh (send_header ''Last-Modified'' (formatdate w (st_mtime f))
                                   (send_header ''Content-Length'' (str_nat (st_size f))
                                     (send_header ''Content-type'' ctype
                                       (send_response w 200 None h)))) of
                           Raise e h1 \<Rightarrow> Raise e h1
                         | Return _ h1 \<Rightarrow> Return (Some (contents f)) h1)))"

text \<open>
  The first half of \<^verbatim>\<open>send_head\<close>:
  \<^verbatim>\<open>
  path = self.translate_path(self.path)
  f = None
  if os.path.isdir(path):
      parts = urllib.parse.urlsplit(self.path)
      if not parts.path.endswith('/'):
          self.send_response(HTTPStatus.MOVED_PERMANENTLY)
          new_parts = (parts[0], parts[1], parts[2] + '/', parts[3], parts[4])
          new_url = urllib.parse.urlunsplit(new_parts)
          self.send_header("Location", new_url)
          self.send_header("Content-Length", "0")
          self.end_headers()
          return None
      (the search for an index file, or list_directory)
  \<close>
\<close>

definition send_head ::
  "(handler \<Rightarrow> unit outcome) \<Rightarrow> world \<Rightarrow> handler \<Rightarrow> reader option outcome" where
  "send_head eh w h =
     (let p = translate w (directory h) (path h)
      in if isdir w p
         then (if \<not> ends_with_slash (url_path w (path h))
               then (case eh (send_header ''Content-Length'' ''0''
                               (send_header ''Location'' (redirect_url w (path h))
                                 (send_response w 301 None h))) of
                       Raise e h1 \<Rightarrow> Raise e h1
                     | Return _ h1 \<Rightarrow> Return None h1)
               else (case find_index w p of
                       Some index \<Rightarrow> send_file eh w index h
                     | None \<Rightarrow> list_directory eh w p h))
         else send_file eh w p h)"

text \<open>\<^verbatim>\<open>copyfile\<close> is \<^verbatim>\<open>shutil.copyfileobj(source, outputfile)\<close>: what was read before a
  failing read has been written.\<close>

definition copyfile :: "reader \<Rightarrow> handler \<Rightarrow> unit outcome" where
  "copyfile f h =
     (case read_fails f of
        None \<Rightarrow> Return () (h\<lparr>wfile := wfile h @ data f\<rparr>)
      | Some n \<Rightarrow> Raise OSError (h\<lparr>wfile := wfile h @ take n (data f)\<rparr>))"

text \<open>
  \<^verbatim>\<open>
  def do_GET(self):
      f = self.send_head()
      if f:
          try:
              self.copyfile(f, self.wfile)
          finally:
              f.close()

  def do_HEAD(self):
      f = self.send_head()
      if f:
          f.close()
  \<close>
\<close>

definition do_GET :: "(handler \<Rightarrow> unit outcome) \<Rightarrow> world \<Rightarrow> handler \<Rightarrow> unit outcome" where
  "do_GET eh w h =
     (case send_head eh w h of
        Raise e h1 \<Rightarrow> Raise e h1
      | Return None h1 \<Rightarrow> Return () h1
      | Return (Some f) h1 \<Rightarrow> copyfile f h1)"

definition do_HEAD :: "(handler \<Rightarrow> unit outcome) \<Rightarrow> world \<Rightarrow> handler \<Rightarrow> unit outcome" where
  "do_HEAD eh w h =
     (case send_head eh w h of
        Raise e h1 \<Rightarrow> Raise e h1
      | Return _ h1 \<Rightarrow> Return () h1)"

subsection \<open>Parsing the request\<close>

text \<open>
  A request as the handler reads it: \<open>raw_requestline\<close> is the result of
  \<^verbatim>\<open>self.rfile.readline(65537)\<close> (empty at end of input), \<open>header_section\<close> the outcome
  of \<^verbatim>\<open>http.client.parse_headers\<close> on what follows.
\<close>

datatype header_parse =
  LineTooLong string | TooManyHeaders string | Parsed "(string \<times> string) list"

record request =
  raw_requestline :: string
  header_section :: header_parse

text \<open>\<^verbatim>\<open>str.isspace\<close> below 256, which \<^verbatim>\<open>str.split()\<close> splits at.\<close>

definition is_space :: "char \<Rightarrow> bool" where
  "is_space c = ((of_char c :: nat) \<in> {9, 10, 11, 12, 13, 28, 29, 30, 31, 32, 133, 160})"

fun split_acc :: "string \<Rightarrow> string \<Rightarrow> string list" where
  "split_acc cur [] = (if cur = [] then [] else [cur])"
| "split_acc cur (c # cs) =
     (if is_space c then (if cur = [] then split_acc [] cs else cur # split_acc [] cs)
      else split_acc (cur @ [c]) cs)"

definition split_ws :: "string \<Rightarrow> string list" where
  "split_ws s = split_acc [] s"

text \<open>\<^verbatim>\<open>s.split(sep)\<close> for a one-character separator.\<close>

fun split_on :: "char \<Rightarrow> string \<Rightarrow> string list" where
  "split_on sep [] = [[]]"
| "split_on sep (c # cs) =
     (if c = sep then [] # split_on sep cs
      else (case split_on sep cs of [] \<Rightarrow> [[c]] | x # xs \<Rightarrow> (c # x) # xs))"

text \<open>\<^verbatim>\<open>s.rstrip('\r\n')\<close>.\<close>

definition rstrip_crlf :: "string \<Rightarrow> string" where
  "rstrip_crlf s = rev (dropWhile (\<lambda>c. c = CHR 0x0D \<or> c = CHR 0x0A) (rev s))"

definition starts_with :: "string \<Rightarrow> string \<Rightarrow> bool" where
  "starts_with pre s = (take (length pre) s = pre)"

definition is_ascii_digit :: "char \<Rightarrow> bool" where
  "is_ascii_digit c = (48 \<le> (of_char c :: nat) \<and> (of_char c :: nat) \<le> 57)"

definition int_of_digits :: "string \<Rightarrow> nat" where
  "int_of_digits s = foldl (\<lambda>acc c. 10 * acc + ((of_char c :: nat) - 48)) 0 s"

text \<open>Python's order on strings: code point by code point, a proper prefix first.\<close>

fun str_le :: "string \<Rightarrow> string \<Rightarrow> bool" where
  "str_le [] t = True"
| "str_le (a # s) [] = False"
| "str_le (a # s) (b # t) =
     ((of_char a :: nat) < of_char b \<or> (a = b \<and> str_le s t))"

text \<open>
  The version check of \<^verbatim>\<open>parse_request\<close>, \<open>None\<close> where it raises \<^verbatim>\<open>ValueError\<close>:
  \<^verbatim>\<open>
  if not version.startswith('HTTP/'):
      raise ValueError
  base_version_number = version.split('/', 1)[1]
  version_number = base_version_number.split(".")
  if len(version_number) != 2:
      raise ValueError
  if any(not component.isdigit() for component in version_number):
      raise ValueError("non digit in http version")
  if any(len(component) > 10 for component in version_number):
      raise ValueError("unreasonable length http version")
  version_number = int(version_number[0]), int(version_number[1])
  \<close>
  \<^verbatim>\<open>isdigit\<close> also accepts the superscript digits of Latin-1, on which \<^verbatim>\<open>int\<close> then
  raises \<^verbatim>\<open>ValueError\<close>: the two checks together admit the ASCII digits only.
\<close>

definition parse_version :: "string \<Rightarrow> (nat \<times> nat) option" where
  "parse_version version =
     (if \<not> starts_with ''HTTP/'' version then None
      else (case split_on CHR ''.'' (drop 5 version) of
              [a, b] \<Rightarrow>
                if a = [] \<or> b = [] \<or> \<not> list_all is_ascii_digit a \<or> \<not> list_all is_ascii_digit b
                then None
                else if length a > 10 \<or> length b > 10 then None
                else Some (int_of_digits a, int_of_digits b)
            | _ \<Rightarrow> None))"

text \<open>
  \<^verbatim>\<open>
  def handle_expect_100(self):
      self.send_response_only(HTTPStatus.CONTINUE)
      self.end_headers()
      return True
  \<close>
\<close>

definition handle_expect_100 ::
  "(handler \<Rightarrow> unit outcome) \<Rightarrow> world \<Rightarrow> handler \<Rightarrow> bool outcome" where
  "handle_expect_100 eh w h =
     (case eh (send_response_only w 100 None h) of
        Raise e h1 \<Rightarrow> Raise e h1
      | Return _ h1 \<Rightarrow> Return True h1)"

text \<open>A call of \<^verbatim>\<open>send_error\<close> followed by \<^verbatim>\<open>return False\<close>.\<close>

definition reject ::
  "(handler \<Rightarrow> unit outcome) \<Rightarrow> world \<Rightarrow> nat \<Rightarrow> string \<Rightarrow> string option \<Rightarrow> handler \<Rightarrow> bool outcome" where
  "reject eh w code message explain h =
     (case send_error eh w code (Some message) explain h of
        Raise e h1 \<Rightarrow> Raise e h1
      | Return _ h1 \<Rightarrow> Return False h1)"

text \<open>
  The part of \<^verbatim>\<open>parse_request\<close> after the request line:
  \<^verbatim>\<open>
  try:
      self.headers = http.client.parse_headers(self.rfile, _class=self.MessageClass)
  except http.client.LineTooLong as err:
      self.send_error(HTTPStatus.REQUEST_HEADER_FIELDS_TOO_LARGE, "Line too long", str(err))
      return False
  except http.client.HTTPException as err:
      self.send_error(HTTPStatus.REQUEST_HEADER_FIELDS_TOO_LARGE, "Too many headers", str(err))
      return False
  conntype = self.headers.get('Connection', "")
  if conntype.lower() == 'close':
      self.close_connection = True
  elif (conntype.lower() == 'keep-alive' and
        self.protocol_version >= "HTTP/1.1"):
      self.close_connection = False
  expect = self.headers.get('Expect', "")
  if (expect.lower() == "100-continue" and
          self.protocol_version >= "HTTP/1.1" and
          self.request_version >= "HTTP/1.1"):
      if not self.handle_expect_100():
          return False
  return True
  \<close>
\<close>

definition parse_header_section ::
  "(handler \<Rightarrow> unit outcome) \<Rightarrow> world \<Rightarrow> request \<Rightarrow> handler \<Rightarrow> bool outcome" where
  "parse_header_section eh w r h =
     (case header_section r of
        LineTooLong err \<Rightarrow> reject eh w 431 ''Line too long'' (Some err) h
      | TooManyHeaders err \<Rightarrow> reject eh w 431 ''Too many headers'' (Some err) h
      | Parsed hs \<Rightarrow>
          (let h1 = h\<lparr>headers := hs\<rparr>;
               conntype = (case hdr_get hs ''Connection'' of None \<Rightarrow> [] | Some v \<Rightarrow> v);
               h2 = (if lower conntype = ''close'' then h1\<lparr>close_connection := True\<rparr>
                     else if lower conntype = ''keep-alive'' \<and> str_le ''HTTP/1.1'' protocol_version
                     then h1\<lparr>close_connection := False\<rparr>
                     else h1);
               expect = (case hdr_get hs ''Expect'' of None \<Rightarrow> [] | Some v \<Rightarrow> v)
           in if lower expect = ''100-continue'' \<and> str_le ''HTTP/1.1'' protocol_version
                 \<and> str_le ''HTTP/1.1'' (request_version h2)
              then handle_expect_100 eh w h2
              else Return True h2))"

text \<open>
  The part of \<^verbatim>\<open>parse_request\<close> on the words of the request line, once the version
  has been dealt with:
  \<^verbatim>\<open>
  if not 2 <= len(words) <= 3:
      self.send_error(HTTPStatus.BAD_REQUEST, "Bad request syntax (%r)" % requestline)
      return False
  command, path = words[:2]
  if len(words) == 2:
      self.close_connection = True
      if command != 'GET':
          self.send_error(HTTPStatus.BAD_REQUEST,
                          "Bad HTTP/0.9 request type (%r)" % command)
          return False
  self.command, self.path = command, path
  if self.path.startswith('//'):
      self.path = '/' + self.path.lstrip('/')
  \<close>
\<close>

definition parse_words ::
  "(handler \<Rightarrow> unit outcome) \<Rightarrow> world \<Rightarrow> request \<Rightarrow> string \<Rightarrow> string list \<Rightarrow> handler \<Rightarrow> bool outcome" where
  "parse_words eh w r requestline words h =
     (case words of
        [cmd, p] \<Rightarrow>
          (let h1 = h\<lparr>close_connection := True\<rparr>
           in if cmd \<noteq> ''GET''
              then reject eh w 400 (''Bad HTTP/0.9 request type ('' @ py_repr w cmd @ '')'') None h1
              else parse_header_section eh w r
                     (h1\<lparr>command := Some cmd,
                         path := (if starts_with ''//'' p
                                  then ''/'' @ dropWhile (\<lambda>c. c = CHR ''/'') p else p)\<rparr>))
      | [cmd, p, _] \<Rightarrow>
          parse_header_section eh w r
            (h\<lparr>command := Some cmd,
               path := (if starts_with ''//'' p
                        then ''/'' @ dropWhile (\<lambda>c. c = CHR ''/'') p else p)\<rparr>)
      | _ \<Rightarrow> reject eh w 400 (''Bad request syntax ('' @ py_repr w requestline @ '')'') None h)"

text \<open>
  The head of \<^verbatim>\<open>parse_request\<close>:
  \<^verbatim>\<open>
  self.command = None  # set in case of error on the first line
  self.request_version = version = self.default_request_version
  self.close_connection = True
  requestline = str(self.raw_requestline, 'iso-8859-1')
  requestline = requestline.rstrip('\r\n')
  self.requestline = requestline
  words = requestline.split()
  if len(words) == 0:
      return False
  if len(words) >= 3:  # Enough to determine protocol version
      version = words[-1]
      try:
          (the version check)
      except (ValueError, IndexError):
          self.send_error(HTTPStatus.BAD_REQUEST, "Bad request version (%r)" % version)
          return False
      if version_number >= (1, 1) and self.protocol_version >= "HTTP/1.1":
          self.close_connection = False
      if version_number >= (2, 0):
          self.send_error(HTTPStatus.HTTP_VERSION_NOT_SUPPORTED,
                          "Invalid HTTP version (%s)" % base_version_number)
          return False
      self.request_version = version
  \<close>
\<close>

definition parse_request ::
  "(handler \<Rightarrow> unit outcome) \<Rightarrow> world \<Rightarrow> request \<Rightarrow> handler \<Rightarrow> bool outcome" where
  "parse_request eh w r h =
     (let h0 = h\<lparr>command := None, request_version := default_request_version,
                 close_connection := True\<rparr>;
          requestline = rstrip_crlf (raw_requestline r);
          words = split_ws requestline
      in if words = [] then Return False h0
         else if length words \<ge> 3
         then (let version = last words
               in case parse_version version of
                    None \<Rightarrow>
                      reject eh w 400 (''Bad request version ('' @ py_repr w version @ '')'') None h0
                  | Some (major, minor) \<Rightarrow>
                      (let h1 = (if (major > 1 \<or> (major = 1 \<and> minor \<ge> 1))
                                    \<and> str_le ''HTTP/1.1'' protocol_version
                                 then h0\<lparr>close_connection := False\<rparr> else h0)
                       in if major \<ge> 2
                          then reject eh w 505
                                 (''Invalid HTTP version ('' @ drop 5 version @ '')'') None h1
                          else parse_words eh w r requestline words
                                 (h1\<lparr>request_version := version\<rparr>)))
         else parse_words eh w r requestline words h0)"

text \<open>
  \<^verbatim>\<open>
  def handle_one_request(self):
      try:
          self.raw_requestline = self.rfile.readline(65537)
          if len(self.raw_requestline) > 65536:
              self.requestline = ''
              self.request_version = ''
              self.command = ''
              self.send_error(HTTPStatus.REQUEST_URI_TOO_LONG)
              return
          if not self.raw_requestline:
              self.close_connection = True
              return
          if not self.parse_request():
              return
          mname = 'do_' + self.command
          if not hasattr(self, mname):
              self.send_error(HTTPStatus.NOT_IMPLEMENTED,
                              "Unsupported method (%r)" % self.command)
              return
          method = getattr(self, mname)
          method()
          self.wfile.flush()
      except TimeoutError as e:
          ...
  \<close>
  The class has the two methods \<^verbatim>\<open>do_GET\<close> and \<^verbatim>\<open>do_HEAD\<close> of
  \<^verbatim>\<open>SimpleHTTPRequestHandler\<close> and no other attribute whose name starts with \<^verbatim>\<open>do_\<close>.
\<close>

definition handle_one_request ::
  "(handler \<Rightarrow> unit outcome) \<Rightarrow> world \<Rightarrow> request \<Rightarrow> handler \<Rightarrow> unit outcome" where
  "handle_one_request eh w r h =
     (if length (raw_requestline r) > 65536
      then send_error eh w 414 None None (h\<lparr>request_version := [], command := Some []\<rparr>)
      else if raw_requestline r = [] then Return () (h\<lparr>close_connection := True\<rparr>)
      else (case parse_request eh w r h of
              Raise e h1 \<Rightarrow> Raise e h1
            | Return False h1 \<Rightarrow> Return () h1
            | Return True h1 \<Rightarrow>
                (case command h1 of
                   None \<Rightarrow> Raise AttributeError h1
                 | Some cmd \<Rightarrow>
                     if cmd = ''GET'' then do_GET eh w h1
                     else if cmd = ''HEAD'' then do_HEAD eh w h1
                     else send_error eh w 501
                            (Some (''Unsupported method ('' @ py_repr w cmd @ '')'')) None h1)))"

text \<open>
  \<^verbatim>\<open>
  def handle(self):
      self.close_connection = True
      self.handle_one_request()
      while not self.close_connection:
          self.handle_one_request()
  \<close>
  The requests still to come on the connection are a list; once it is exhausted
  \<^verbatim>\<open>readline\<close> returns the empty line of the end of input.
\<close>

definition end_of_input :: request where
  "end_of_input = \<lparr>raw_requestline = [], header_section = Parsed []\<rparr>"

fun handle_more ::
  "(handler \<Rightarrow> unit outcome) \<Rightarrow> world \<Rightarrow> request list \<Rightarrow> handler \<Rightarrow> unit outcome" where
  "handle_more eh w [] h =
     (if close_connection h then Return () h else handle_one_request eh w end_of_input h)"
| "handle_more eh w (r # rs) h =
     (if close_connection h then Return () h
      else (case handle_one_request eh w r h of
              Raise e h1 \<Rightarrow> Raise e h1
            | Return _ h1 \<Rightarrow> handle_more eh w rs h1))"

definition handle ::
  "(handler \<Rightarrow> unit outcome) \<Rightarrow> world \<Rightarrow> request list \<Rightarrow> handler \<Rightarrow> unit outcome" where
  "handle eh w rs h =
     (case handle_one_request eh w (case rs of [] \<Rightarrow> end_of_input | r # _ \<Rightarrow> r)
             (h\<lparr>close_connection := True\<rparr>) of
        Raise e h1 \<Rightarrow> Raise e h1
      | Return _ h1 \<Rightarrow> handle_more eh w (tl rs) h1)"

subsection \<open>The server and the main block\<close>

text \<open>
  The process is observed through the calls it makes on its listening socket, the bytes
  it writes on standard output, and the connections it handles. \<open>Stdout bytes\<close> records
  bytes that have reached the file descriptor of standard output, not text that waits in
  the buffer of \<^verbatim>\<open>sys.stdout\<close>. \<open>Handled sent err\<close> records one connection: the bytes
  written to the client and the exception that ended the handler, if one did.
\<close>

datatype event =
  Socket | SetReuseAddr | Bind string nat | Listen | Close
| Stdout string
| Handled string "py_error option"

text \<open>What the operating system gives the process: its working directory
  (\<^verbatim>\<open>os.getcwd()\<close>; the program never calls \<^verbatim>\<open>os.chdir\<close>), whether creating the
  socket, binding it to an address and a port, or listening on it raises \<^verbatim>\<open>OSError\<close>
  (address in use, permission denied), and how the interpreter has opened standard
  output: line-buffered when it is a terminal and write-through under \<^verbatim>\<open>-u\<close> or
  \<^verbatim>\<open>PYTHONUNBUFFERED\<close>, so that a printed line is written at once
  (\<open>stdout_line_buffered\<close>), and block-buffered otherwise (a pipe, a file).\<close>

record system =
  getcwd :: string
  socket_fails :: bool
  bind_fails :: "string \<Rightarrow> nat \<Rightarrow> bool"
  listen_fails :: bool
  stdout_line_buffered :: bool

text \<open>
  \<^verbatim>\<open>socketserver.TCPServer.__init__\<close>, with \<^verbatim>\<open>server_bind\<close> and \<^verbatim>\<open>server_activate\<close>:
  \<^verbatim>\<open>
  def __init__(self, server_address, RequestHandlerClass, bind_and_activate=True):
      BaseServer.__init__(self, server_address, RequestHandlerClass)
      self.socket = socket.socket(self.address_family, self.socket_type)
      if bind_and_activate:
          try:
              self.server_bind()
              self.server_activate()
          except:
              self.server_close()
              raise

  def server_bind(self):
      if self.allow_reuse_address and hasattr(socket, "SO_REUSEADDR"):
          self.socket.setsockopt(socket.SOL_SOCKET, socket.SO_REUSEADDR, 1)
      ...
      self.socket.bind(self.server_address)

  def server_activate(self):
      self.socket.listen(self.request_queue_size)
  \<close>
  The result is the calls made and the exception raised, if any.
\<close>

definition HTTPServer_init :: "system \<Rightarrow> string \<Rightarrow> nat \<Rightarrow> event list \<times> py_error option" where
  "HTTPServer_init sys host port =
     (if socket_fails sys then ([Socket], Some OSError)
      else if bind_fails sys host port
      then ([Socket, SetReuseAddr, Bind host port, Close], Some OSError)
      else if listen_fails sys
      then ([Socket, SetReuseAddr, Bind host port, Listen, Close], Some OSError)
      else ([Socket, SetReuseAddr, Bind host port, Listen], None))"

text \<open>
  A connection is the requests the client sends on it, and the world at the time it is
  handled. Each connection gets a handler object of its own, in the working directory of
  the process:
  \<^verbatim>\<open>
  def finish_request(self, request, client_address):
      self.RequestHandlerClass(request, client_address, self)
  \<close>
  whose constructors run \<^verbatim>\<open>handle\<close>:
  \<^verbatim>\<open>
  def __init__(self, *args, directory=None, **kwargs):     # SimpleHTTPRequestHandler
      if directory is None:
          directory = os.getcwd()
      self.directory = os.fspath(directory)
      super().__init__(*args, **kwargs)

  def __init__(self, request, client_address, server):     # BaseRequestHandler
      ...
      self.setup()
      try:
          self.handle()
      finally:
          self.finish()
  \<close>
  A new handler has no \<^verbatim>\<open>_headers_buffer\<close> and has written nothing; its request version,
  command, path and headers are assigned by \<^verbatim>\<open>handle_one_request\<close> before they are read.
\<close>

definition new_handler :: "string \<Rightarrow> handler" where
  "new_handler cwd =
     \<lparr>directory = cwd, request_version = [], command = None, path = [],
      headers = [], close_connection = True, headers_buffer = None, wfile = []\<rparr>"

definition finish_request ::
  "(handler \<Rightarrow> unit outcome) \<Rightarrow> string \<Rightarrow> world \<times> request list \<Rightarrow> unit outcome" where
  "finish_request eh cwd conn = handle eh (fst conn) (snd conn) (new_handler cwd)"

text \<open>
  \<^verbatim>\<open>
  def _handle_request_noblock(self):
      ...
      if self.verify_request(request, client_address):
          try:
              self.process_request(request, client_address)
          except Exception:
              self.handle_error(request, client_address)
              self.shutdown_request(request)
  \<close>
  \<^verbatim>\<open>handle_error\<close> prints a traceback on standard error and returns.
\<close>

definition handle_request_noblock ::
  "(handler \<Rightarrow> unit outcome) \<Rightarrow> string \<Rightarrow> world \<times> request list \<Rightarrow> event" where
  "handle_request_noblock eh cwd conn =
     (case finish_request eh cwd conn of
        Return _ h \<Rightarrow> Handled (wfile h) None
      | Raise e h \<Rightarrow> Handled (wfile h) (Some e))"

text \<open>
  \<^verbatim>\<open>serve_forever\<close> handles one connection after the other until \<^verbatim>\<open>shutdown\<close> is
  called, which this program never does:
  \<^verbatim>\<open>
  while not self.__shutdown_request:
      ready = selector.select(poll_interval)
      if self.__shutdown_request:
          break
      if ready:
          self._handle_request_noblock()
      self.service_actions()
  \<close>
  On the connections that have arrived so far it has handled each in turn, and is still
  in the loop.
\<close>

definition serve_forever ::
  "(handler \<Rightarrow> unit outcome) \<Rightarrow> string \<Rightarrow> (world \<times> request list) list \<Rightarrow> event list" where
  "serve_forever eh cwd conns = map (handle_request_noblock eh cwd) conns"

text \<open>
  \<^verbatim>\<open>print(line)\<close> with no \<^verbatim>\<open>flush\<close> argument hands the line and a newline to
  \<^verbatim>\<open>sys.stdout\<close>. When standard output is line-buffered or write-through the text is
  written to the file descriptor before \<^verbatim>\<open>print\<close> returns. When it is block-buffered the
  text waits in the buffer (8192 bytes; the one line this program prints is shorter) until
  the buffer is flushed, which this program never asks for. The result is what has been
  written and what waits in the buffer, for a buffer that was empty.
\<close>

definition print :: "system \<Rightarrow> string \<Rightarrow> event list \<times> string" where
  "print sys line =
     (if stdout_line_buffered sys then ([Stdout (line @ NL)], []) else ([], line @ NL))"

text \<open>
  \<^verbatim>\<open>serve.py\<close>, lines 11 to 14:
  \<^verbatim>\<open>
  if __name__ == '__main__':
      server = http.server.HTTPServer(('127.0.0.1', 3000), NoCacheHandler)
      print('Dev server: http://localhost:3000 (no-cache)')
      server.serve_forever()
  \<close>
  An exception of the constructor is caught nowhere: the interpreter prints the traceback
  on standard error and the process exits with status 1. A run is what the process has
  done on the connections that have arrived so far: the events in their order, the text
  still waiting in the buffer of standard output, and whether the process is running.
\<close>

datatype process = Running | Exited nat

record run =
  trace :: "event list"
  unflushed :: string
  status :: process

definition main :: "system \<Rightarrow> (world \<times> request list) list \<Rightarrow> run" where
  "main sys conns =
     (case HTTPServer_init sys ''127.0.0.1'' 3000 of
        (calls, Some e) \<Rightarrow> \<lparr>trace = calls, unflushed = [], status = Exited 1\<rparr>
      | (calls, None) \<Rightarrow>
          (case print sys ''Dev server: http://localhost:3000 (no-cache)'' of
             (written, waiting) \<Rightarrow>
               \<lparr>trace = calls @ written @ serve_forever end_headers (getcwd sys) conns,
                unflushed = waiting, status = Running\<rparr>))"

subsection \<open>Observing a response\<close>

definition state_of :: "'a outcome \<Rightarrow> handler" where
  "state_of out = (case out of Return _ h \<Rightarrow> h | Raise _ h \<Rightarrow> h)"


text \<open>Python's \<^verbatim>\<open>pat in s\<close> on byte strings.\<close>

fun contains :: "string \<Rightarrow> string \<Rightarrow> bool" where
  "contains pat [] = (pat = [])"
| "contains pat (c # cs) = (starts_with pat (c # cs) \<or> contains pat cs)"

text \<open>
  The header block of a response as a client reads it off the wire: the lines before the
  first blank line, each with its CRLF, and the bytes that follow the blank line. A line
  ends at the first CRLF; \<open>None\<close> when the bytes hold no blank line. The first argument
  of \<open>header_lines\<close> is the line read so far, last byte first.
\<close>

fun header_lines :: "string \<Rightarrow> string \<Rightarrow> (string list \<times> string) option" where
  "header_lines cur [] = None"
| "header_lines cur [c] = None"
| "header_lines cur (c # d # cs) =
     (if c = CHR 0x0D \<and> d = CHR 0x0A
      then (if cur = [] then Some ([], cs)
            else (case header_lines [] cs of
                    None \<Rightarrow> None
                  | Some (ls, body) \<Rightarrow> Some ((rev cur @ CRLF) # ls, body)))
      else header_lines (c # cur) (d # cs))"

definition header_block :: "string \<Rightarrow> (string list \<times> string) option" where
  "header_block s = header_lines [] s"

text \<open>The dotted-quad addresses of the loopback network 127.0.0.0/8.\<close>

definition is_loopback :: "string \<Rightarrow> bool" where
  "is_loopback host =
     (case split_on CHR ''.'' host of [a, b, c, d] \<Rightarrow> a = ''127'' | _ \<Rightarrow> False)"

fun is_bind :: "event \<Rightarrow> bool" where
  "is_bind (Bind host port) = True"
| "is_bind e = False"

fun is_stdout :: "event \<Rightarrow> bool" where
  "is_stdout (Stdout bytes) = True"
| "is_stdout e = False"


subsection \<open>Vocabulary of the proofs\<close>

text \<open>
  \<open>no_break s\<close>: the text holds neither a carriage return nor a line feed. A
  \<open>wire_line\<close> is such a text, not empty, followed by CRLF: one line on the wire, and not
  the blank line. A buffered line is plain when it is a \<open>wire_line\<close> and none of the three
  no-cache lines. A world is \<open>clean\<close> when the texts the library takes from it for a status
  line or a header are single lines: \<^verbatim>\<open>repr\<close> escapes line breaks, \<^verbatim>\<open>urlsplit\<close> removes
  them, and the reason phrases, dates, media types, the encoding name and the server's
  version string hold none; \<open>plain w l\<close> says that \<open>l\<close> is plain if \<open>w\<close> is clean.
  \<open>responded w h h'\<close> says that between \<open>h\<close> and \<open>h'\<close> a header block was written that
  consists of the lines buffered in \<open>h\<close>, further lines that are plain in \<open>w\<close>, the three no-cache lines and
  the blank line, in this order, and possibly a body after it; it says so for a request
  that is not HTTP/0.9. \<open>kept h h'\<close> says that the document root, the request version and
  the command are the same and that a connection marked for closing stays so.
  \<open>reason w code message\<close> is the reason phrase \<^verbatim>\<open>send_response_only\<close> puts in the status
  line.
\<close>

definition no_break :: "string \<Rightarrow> bool" where
  "no_break s \<longleftrightarrow> CHR 0x0D \<notin> set s \<and> CHR 0x0A \<notin> set s"

definition wire_line :: "string \<Rightarrow> bool" where
  "wire_line l \<longleftrightarrow>
     2 < length l \<and> drop (length l - 2) l = CRLF \<and> no_break (take (length l - 2) l)"

definition plain_line :: "string \<Rightarrow> bool" where
  "plain_line l \<longleftrightarrow> wire_line l \<and> l \<notin> set no_cache_lines"

definition clean :: "world \<Rightarrow> bool" where
  "clean w \<longleftrightarrow>
     no_break (version_string w) \<and> no_break (getfilesystemencoding w) \<and>
     (\<forall>t. no_break (formatdate w t)) \<and> (\<forall>p. no_break (guess_type w p)) \<and>
     (\<forall>p. no_break (redirect_url w p)) \<and> (\<forall>s. no_break (py_repr w s)) \<and>
     (\<forall>c. case responses w c of None \<Rightarrow> True | Some (short, long) \<Rightarrow> no_break short)"

definition plain :: "world \<Rightarrow> string \<Rightarrow> bool" where
  "plain w l \<longleftrightarrow> (clean w \<longrightarrow> plain_line l)"

definition responded :: "world \<Rightarrow> handler \<Rightarrow> handler \<Rightarrow> bool" where
  "responded w h h' \<longleftrightarrow>
     (request_version h' \<noteq> ''HTTP/0.9'' \<longrightarrow>
        headers_buffer h' = Some [] \<and>
        (\<exists>L B. list_all (plain w) L \<and> L \<noteq> [] \<and>
           wfile h' = wfile h @ concat (buffered h @ L @ no_cache_lines @ [CRLF]) @ B))"

definition kept :: "handler \<Rightarrow> handler \<Rightarrow> bool" where
  "kept h h' \<longleftrightarrow>
     directory h' = directory h \<and> request_version h' = request_version h \<and>
     command h' = command h \<and> (close_connection h \<longrightarrow> close_connection h')"

definition reason :: "world \<Rightarrow> nat \<Rightarrow> string option \<Rightarrow> string" where
  "reason w c m = (case m of Some m \<Rightarrow> m | None \<Rightarrow> (case responses w c of Some (short, _) \<Rightarrow> short | None \<Rightarrow> []))"

text \<open>
  \<open>parsed w h out\<close> is what \<^verbatim>\<open>parse_request\<close> guarantees under \<^verbatim>\<open>NoCacheHandler\<close>: it
  returns; it has either written nothing or rejected the request with a response; and
  when it accepts the request the command is set. \<open>handled w h out\<close> is the same for
  \<^verbatim>\<open>handle_one_request\<close>: nothing written, or one response.
\<close>

definition parsed :: "world \<Rightarrow> handler \<Rightarrow> bool outcome \<Rightarrow> bool" where
  "parsed w h out \<longleftrightarrow>
     (case out of
        Raise e h' \<Rightarrow> False
      | Return b h' \<Rightarrow>
          directory h' = directory h \<and> close_connection h' \<and>
          (b \<longrightarrow> command h' \<noteq> None) \<and>
          ((wfile h' = wfile h \<and> headers_buffer h' = headers_buffer h) \<or>
           (\<not> b \<and> responded w h h')))"

definition handled :: "world \<Rightarrow> handler \<Rightarrow> unit outcome \<Rightarrow> bool" where
  "handled w h out \<longleftrightarrow>
     directory (state_of out) = directory h \<and> close_connection (state_of out) \<and>
     ((wfile (state_of out) = wfile h \<and> headers_buffer (state_of out) = headers_buffer h) \<or>
      responded w h (state_of out))"

text \<open>
  \<open>plain_get r p\<close>: the request is a \<^verbatim>\<open>GET\<close> for the path \<open>p\<close> with a version that
  \<^verbatim>\<open>parse_request\<close> accepts and that is not HTTP/0.9, its header section parses, and it
  carries no \<^verbatim>\<open>If-Modified-Since\<close>. \<open>readable w file f\<close>: in the world \<open>w\<close> the name
  \<open>file\<close> is no directory, \<^verbatim>\<open>open\<close> gives \<open>f\<close>, and reading \<open>f\<close> does not fail.
  \<open>file_response w file f\<close> is the 200 response with the bytes of \<open>f\<close>.
\<close>

definition plain_get :: "request \<Rightarrow> string \<Rightarrow> bool" where
  "plain_get r p \<longleftrightarrow>
     raw_requestline r \<noteq> [] \<and> length (raw_requestline r) \<le> 65536 \<and>
     (case split_ws (rstrip_crlf (raw_requestline r)) of
        [cmd, q, v] \<Rightarrow>
          cmd = ''GET'' \<and> q = p \<and> v \<noteq> ''HTTP/0.9'' \<and>
          (case parse_version v of None \<Rightarrow> False | Some (major, minor) \<Rightarrow> major < 2)
      | _ \<Rightarrow> False) \<and>
     \<not> starts_with ''//'' p \<and>
     (case header_section r of
        Parsed hs \<Rightarrow> hdr_get hs ''If-Modified-Since'' = None
      | _ \<Rightarrow> False)"

definition readable :: "world \<Rightarrow> string \<Rightarrow> file_obj \<Rightarrow> bool" where
  "readable w file f \<longleftrightarrow>
     \<not> isdir w file \<and> \<not> ends_with_slash file \<and> open_rb w file = Some f \<and>
     read_fails (contents f) = None"

definition file_response :: "world \<Rightarrow> string \<Rightarrow> file_obj \<Rightarrow> string" where
  "file_response w file f =
     concat ([status_line 200 (reason w 200 None),
              header_line ''Server'' (version_string w),
              header_line ''Date'' (formatdate w (time_now w)),
              header_line ''Content-type'' (guess_type w file),
              header_line ''Content-Length'' (str_nat (st_size f)),
              header_line ''Last-Modified'' (formatdate w (st_mtime f))]
             @ no_cache_lines @ [CRLF]) @
     data (contents f)"

subsection \<open>Sample inputs\<close>

text \<open>A handler that has buffered the status line of a 200 response to an HTTP/1.1
  request, and the same handler for a request without a version (HTTP/0.9).\<close>

definition sample_handler :: handler where
  "sample_handler =
     \<lparr>directory = ''/srv'', request_version = ''HTTP/1.1'', command = Some ''GET'',
      path = ''/a.txt'', headers = [], close_connection = True,
      headers_buffer = Some [''HTTP/1.0 200 OK'' @ CRLF], wfile = []\<rparr>"

definition old_handler :: handler where
  "old_handler =
     \<lparr>directory = ''/srv'', request_version = ''HTTP/0.9'', command = Some ''GET'',
      path = ''/a.txt'', headers = [], close_connection = True,
      headers_buffer = None, wfile = []\<rparr>"

text \<open>A document root \<^verbatim>\<open>/srv\<close> that holds a readable file \<^verbatim>\<open>a.txt\<close> with the five
  bytes \<^verbatim>\<open>hello\<close>, a file \<^verbatim>\<open>locked.txt\<close> that exists and cannot be opened, and a
  directory \<^verbatim>\<open>docs\<close>; the entries of \<^verbatim>\<open>responses\<close> the handler uses.\<close>

definition sample_responses :: "nat \<Rightarrow> (string \<times> string) option" where
  "sample_responses code =
     (if code = 200 then Some (''OK'', ''Request fulfilled, document follows'')
      else if code = 301 then Some (''Moved Permanently'', ''Object moved permanently -- see URI list'')
      else if code = 304 then Some (''Not Modified'', ''Document has not changed since given time'')
      else if code = 400 then Some (''Bad Request'', ''Bad request syntax or unsupported method'')
      else if code = 404 then Some (''Not Found'', ''Nothing matches the given URI'')
      else if code = 501 then Some (''Not Implemented'', ''Server does not support this operation'')
      else if code = 505 then Some (''HTTP Version Not Supported'', ''Cannot fulfill request'')
      else None)"

text \<open>\<^verbatim>\<open>repr\<close> writes a carriage return as \<^verbatim>\<open>\r\<close> and a line feed as \<^verbatim>\<open>\n\<close>;
  \<^verbatim>\<open>urlsplit\<close> removes tabs, line feeds and carriage returns from a URL.\<close>

definition sample_escape :: "char \<Rightarrow> string" where
  "sample_escape c =
     (if c = CHR 0x0D then [CHR 0x5C, CHR ''r'']
      else if c = CHR 0x0A then [CHR 0x5C, CHR ''n'']
      else [c])"

definition sample_file :: file_obj where
  "sample_file = \<lparr>contents = \<lparr>data = ''hello'', read_fails = None\<rparr>, st_size = 5, st_mtime = 100\<rparr>"

definition sample_world :: world where
  "sample_world =
     \<lparr>translate = (\<lambda>d p. d @ p),
      isdir = (\<lambda>p. p = ''/srv/docs''),
      isfile = (\<lambda>p. p = ''/srv/a.txt'' \<or> p = ''/srv/locked.txt''),
      open_rb = (\<lambda>p. if p = ''/srv/a.txt'' then Some sample_file else None),
      listing = (\<lambda>p u. None),
      url_path = (\<lambda>p. p),
      redirect_url = (\<lambda>p. filter (\<lambda>c. c \<noteq> CHR 0x09 \<and> c \<noteq> CHR 0x0A \<and> c \<noteq> CHR 0x0D) p @ ''/''),
      guess_type = (\<lambda>p. ''text/plain''),
      getfilesystemencoding = ''utf-8'',
      parse_ims = (\<lambda>v. if v = ''Thu, 01 Jan 1970 00:01:40 GMT'' then Some 100 else None),
      formatdate = (\<lambda>t. ''Thu, 01 Jan 1970 00:01:40 GMT''),
      time_now = 100,
      version_string = ''SimpleHTTP/0.6 Python/3.11.10'',
      responses = sample_responses,
      py_repr = (\<lambda>s. [CHR 0x27] @ concat (map sample_escape s) @ [CHR 0x27])\<rparr>"

text \<open>The same root after \<^verbatim>\<open>a.txt\<close> has been rewritten within the same second, and the same
  root with a disk that fails after two bytes of \<^verbatim>\<open>a.txt\<close> have been read.\<close>

definition changed_world :: world where
  "changed_world =
     sample_world\<lparr>open_rb := (\<lambda>p. if p = ''/srv/a.txt''
        then Some \<lparr>contents = \<lparr>data = ''HELLO AGAIN'', read_fails = None\<rparr>,
                   st_size = 11, st_mtime = 100\<rparr>
        else None)\<rparr>"

definition broken_world :: world where
  "broken_world =
     sample_world\<lparr>open_rb := (\<lambda>p. if p = ''/srv/a.txt''
        then Some \<lparr>contents = \<lparr>data = ''hello'', read_fails = Some 2\<rparr>,
                   st_size = 5, st_mtime = 100\<rparr>
        else None)\<rparr>"

definition get_request :: request where
  "get_request = \<lparr>raw_requestline = ''GET /a.txt HTTP/1.1'' @ CRLF, header_section = Parsed []\<rparr>"

definition old_get_request :: request where
  "old_get_request = \<lparr>raw_requestline = ''GET /a.txt'' @ CRLF, header_section = Parsed []\<rparr>"

definition get_locked_request :: request where
  "get_locked_request =
     \<lparr>raw_requestline = ''GET /locked.txt HTTP/1.1'' @ CRLF, header_section = Parsed []\<rparr>"

definition head_missing_request :: request where
  "head_missing_request =
     \<lparr>raw_requestline = ''HEAD /missing.txt HTTP/1.1'' @ CRLF, header_section = Parsed []\<rparr>"

definition get_missing_request :: request where
  "get_missing_request =
     \<lparr>raw_requestline = ''GET /missing.txt HTTP/1.1'' @ CRLF, header_section = Parsed []\<rparr>"

definition conditional_request :: request where
  "conditional_request =
     \<lparr>raw_requestline = ''GET /a.txt HTTP/1.1'' @ CRLF,
      header_section = Parsed [(''If-Modified-Since'', ''Thu, 01 Jan 1970 00:01:40 GMT'')]\<rparr>"

text \<open>The handler of a connection to \<^verbatim>\<open>/srv\<close> once \<^verbatim>\<open>parse_request\<close> has accepted
  a request with the given command, path, version and headers.\<close>

definition accepted :: "string \<Rightarrow> string \<Rightarrow> string \<Rightarrow> (string \<times> string) list \<Rightarrow> handler" where
  "accepted cmd p v hs =
     \<lparr>directory = ''/srv'', request_version = v, command = Some cmd, path = p,
      headers = hs, close_connection = True, headers_buffer = None, wfile = []\<rparr>"


text \<open>A system in which port 3000 is free and standard output is a terminal, one in
  which the port is taken, and one in which standard output is a pipe.\<close>

definition sample_system :: system where
  "sample_system =
     \<lparr>getcwd = ''/srv'', socket_fails = False, bind_fails = (\<lambda>host port. False),
      listen_fails = False, stdout_line_buffered = True\<rparr>"


definition piped_system :: system where
  "piped_system =
     \<lparr>getcwd = ''/srv'', socket_fails = False, bind_fails = (\<lambda>host port. False),
      listen_fails = False, stdout_line_buffered = False\<rparr>"

section \<open>Properties of the override\<close>

lemma lower_no_cache_keywords:
  "lower ''Cache-Control'' \<noteq> ''connection''"
  "lower ''Pragma'' \<noteq> ''connection''"
  "lower ''Expires'' \<noteq> ''connection''"
  by (simp_all add: lower_def)

lemma send_header_plain:
  assumes "lower keyword \<noteq> ''connection''" and "request_version h \<noteq> ''HTTP/0.9''"
  shows "send_header keyword val h =
           h\<lparr>headers_buffer := Some (buffered h @ [header_line keyword val])\<rparr>"
  using assms by (simp add: send_header_def buffer_append_def buffered_def)

lemma send_header_old:
  assumes "lower keyword \<noteq> ''connection''" and "request_version h = ''HTTP/0.9''"
  shows "send_header keyword val h = h"
  using assms by (simp add: send_header_def)

lemma end_headers_new:
  assumes "request_version h \<noteq> ''HTTP/0.9''"
  shows "end_headers h =
           Return () (h\<lparr>headers_buffer := Some [],
                        wfile := wfile h @ concat (buffered h) @ concat no_cache_lines @ CRLF\<rparr>)"
  using assms
  by (simp add: end_headers_def send_header_plain lower_no_cache_keywords base_end_headers_def
      flush_headers_def buffered_def no_cache_lines_def header_line_def)

lemma end_headers_old:
  assumes "request_version h = ''HTTP/0.9''"
  shows "end_headers h = Return () h"
  using assms
  by (simp add: end_headers_def send_header_old lower_no_cache_keywords base_end_headers_def)

subsection \<open>Field by field\<close>

lemma lower_consts [simp]:
  "lower ''Server'' \<noteq> ''connection''" "lower ''Date'' \<noteq> ''connection''"
  "lower ''Content-Type'' \<noteq> ''connection''" "lower ''Content-type'' \<noteq> ''connection''"
  "lower ''Content-Length'' \<noteq> ''connection''" "lower ''Location'' \<noteq> ''connection''"
  "lower ''Last-Modified'' \<noteq> ''connection''"
  "lower ''Connection'' = ''connection''" "lower ''close'' = ''close''"
  by code_simp+

lemma str_le_protocol [simp]: "str_le ''HTTP/1.1'' protocol_version = False"
  by code_simp

lemma send_header_fields [simp]:
  "request_version (send_header k v h) = request_version h"
  "directory (send_header k v h) = directory h"
  "command (send_header k v h) = command h"
  "path (send_header k v h) = path h"
  "headers (send_header k v h) = headers h"
  "wfile (send_header k v h) = wfile h"
  by (simp_all add: send_header_def buffer_append_def Let_def)

lemma send_header_buffered [simp]:
  "buffered (send_header k v h) =
     (if request_version h \<noteq> ''HTTP/0.9'' then buffered h @ [header_line k v] else buffered h)"
  by (simp add: send_header_def buffer_append_def buffered_def Let_def)

lemma send_header_close_plain [simp]:
  "lower k \<noteq> ''connection'' \<Longrightarrow> close_connection (send_header k v h) = close_connection h"
  by (simp add: send_header_def buffer_append_def Let_def)

lemma send_header_close_close [simp]:
  "close_connection (send_header ''Connection'' ''close'' h) = True"
  by (simp add: send_header_def buffer_append_def Let_def)

lemma send_response_only_fields [simp]:
  "request_version (send_response_only w c m h) = request_version h"
  "directory (send_response_only w c m h) = directory h"
  "command (send_response_only w c m h) = command h"
  "path (send_response_only w c m h) = path h"
  "headers (send_response_only w c m h) = headers h"
  "wfile (send_response_only w c m h) = wfile h"
  "close_connection (send_response_only w c m h) = close_connection h"
  by (simp_all add: send_response_only_def buffer_append_def Let_def)

lemma send_response_only_buffered [simp]:
  "buffered (send_response_only w c m h) =
     (if request_version h \<noteq> ''HTTP/0.9''
      then buffered h @ [status_line c (reason w c m)] else buffered h)"
  by (simp add: send_response_only_def buffer_append_def buffered_def Let_def reason_def)

lemma send_response_fields [simp]:
  "request_version (send_response w c m h) = request_version h"
  "directory (send_response w c m h) = directory h"
  "command (send_response w c m h) = command h"
  "path (send_response w c m h) = path h"
  "headers (send_response w c m h) = headers h"
  "wfile (send_response w c m h) = wfile h"
  "close_connection (send_response w c m h) = close_connection h"
  by (simp_all add: send_response_def)

lemma send_response_buffered [simp]:
  "buffered (send_response w c m h) =
     (if request_version h \<noteq> ''HTTP/0.9''
      then buffered h @ [status_line c (reason w c m), header_line ''Server'' (version_string w),
                         header_line ''Date'' (formatdate w (time_now w))]
      else buffered h)"
  by (simp add: send_response_def)

lemma no_break_simps [simp]:
  "no_break []"
  "no_break (c # s) \<longleftrightarrow> c \<noteq> CHR 0x0D \<and> c \<noteq> CHR 0x0A \<and> no_break s"
  "no_break (a @ b) \<longleftrightarrow> no_break a \<and> no_break b"
  by (auto simp add: no_break_def)

lemma no_break_drop: "no_break s \<Longrightarrow> no_break (drop n s)"
  by (auto simp add: no_break_def dest: in_set_dropD)

lemma no_break_digit:
  assumes "(n::nat) < 10"
  shows "no_break [char_of (48 + n)]"
proof -
  have e: "(of_char (char_of (48 + n) :: char) :: nat) = 48 + n" using assms by simp
  have "char_of (48 + n) \<noteq> CHR 0x0D"
  proof
    assume a: "char_of (48 + n) = CHR 0x0D"
    have "(of_char (CHR 0x0D) :: nat) = 48 + n" using e unfolding a .
    then show False by simp
  qed
  moreover have "char_of (48 + n) \<noteq> CHR 0x0A"
  proof
    assume a: "char_of (48 + n) = CHR 0x0A"
    have "(of_char (CHR 0x0A) :: nat) = 48 + n" using e unfolding a .
    then show False by simp
  qed
  ultimately show ?thesis by simp
qed

lemma no_break_str_nat [simp]: "no_break (str_nat n)"
proof (induction n rule: str_nat.induct)
  case (1 n)
  show ?case
  proof (cases "n < 10")
    case True
    then show ?thesis by (subst str_nat.simps) (simp add: no_break_digit del: no_break_simps(2))
  next
    case False
    have "n mod 10 < 10" by simp
    then have "no_break [char_of (48 + n mod 10)]" by (rule no_break_digit)
    then show ?thesis
      using False 1 by (subst str_nat.simps) (simp del: no_break_simps(2))
  qed
qed

lemma wire_lineI: "no_break b \<Longrightarrow> b \<noteq> [] \<Longrightarrow> wire_line (b @ CRLF)"
  by (simp add: wire_line_def CRLF_def)

lemma wire_lineD:
  assumes "wire_line l"
  shows "\<exists>b. l = b @ CRLF \<and> b \<noteq> [] \<and> no_break b"
proof -
  have d: "drop (length l - 2) l = CRLF" using assms by (simp add: wire_line_def)
  have "take (length l - 2) l @ CRLF = l"
    unfolding d [symmetric] by (rule append_take_drop_id)
  then have "l = take (length l - 2) l @ CRLF" by (rule sym)
  moreover have "take (length l - 2) l \<noteq> []" using assms by (auto simp add: wire_line_def)
  moreover have "no_break (take (length l - 2) l)" using assms by (simp add: wire_line_def)
  ultimately show ?thesis by blast
qed

lemma wire_status: "no_break m \<Longrightarrow> wire_line (status_line c m)"
  using wire_lineI [of "protocol_version @ '' '' @ str_nat c @ '' '' @ m"]
  by (simp add: status_line_def protocol_version_def)

lemma wire_header: "no_break k \<Longrightarrow> no_break v \<Longrightarrow> wire_line (header_line k v)"
  using wire_lineI [of "k @ '': '' @ v"] by (simp add: header_line_def)

lemma wire_no_cache_lines: "list_all wire_line no_cache_lines"
proof -
  have e: "no_cache_lines =
     [header_line ''Cache-Control'' ''no-cache, no-store, must-revalidate'',
      header_line ''Pragma'' ''no-cache'', header_line ''Expires'' ''0'']"
    by (simp add: no_cache_lines_def header_line_def)
  show ?thesis unfolding e by (simp add: wire_header)
qed

lemma plain_line_cases:
  "no_break m \<Longrightarrow> plain_line (status_line c m)"
  "no_break v \<Longrightarrow> plain_line (header_line ''Server'' v)"
  "no_break v \<Longrightarrow> plain_line (header_line ''Date'' v)"
  "no_break v \<Longrightarrow> plain_line (header_line ''Connection'' v)"
  "no_break v \<Longrightarrow> plain_line (header_line ''Content-Type'' v)"
  "no_break v \<Longrightarrow> plain_line (header_line ''Content-type'' v)"
  "no_break v \<Longrightarrow> plain_line (header_line ''Content-Length'' v)"
  "no_break v \<Longrightarrow> plain_line (header_line ''Location'' v)"
  "no_break v \<Longrightarrow> plain_line (header_line ''Last-Modified'' v)"
  by (simp_all add: plain_line_def wire_status wire_header,
      simp_all add: status_line_def header_line_def no_cache_lines_def
      protocol_version_def CRLF_def)

lemma plain_lines [simp]:
  "(clean w \<longrightarrow> no_break m) \<Longrightarrow> plain w (status_line c m)"
  "(clean w \<longrightarrow> no_break v) \<Longrightarrow> plain w (header_line ''Server'' v)"
  "(clean w \<longrightarrow> no_break v) \<Longrightarrow> plain w (header_line ''Date'' v)"
  "(clean w \<longrightarrow> no_break v) \<Longrightarrow> plain w (header_line ''Connection'' v)"
  "(clean w \<longrightarrow> no_break v) \<Longrightarrow> plain w (header_line ''Content-Type'' v)"
  "(clean w \<longrightarrow> no_break v) \<Longrightarrow> plain w (header_line ''Content-type'' v)"
  "(clean w \<longrightarrow> no_break v) \<Longrightarrow> plain w (header_line ''Content-Length'' v)"
  "(clean w \<longrightarrow> no_break v) \<Longrightarrow> plain w (header_line ''Location'' v)"
  "(clean w \<longrightarrow> no_break v) \<Longrightarrow> plain w (header_line ''Last-Modified'' v)"
  by (simp_all add: plain_def plain_line_cases)

lemma plain_all: "clean w \<Longrightarrow> list_all (plain w) L = list_all plain_line L"
  by (simp add: list_all_iff plain_def)

lemma no_break_consts [simp]: "no_break error_content_type"
  by (simp add: error_content_type_def)

lemma clean_texts [simp]:
  assumes "clean w"
  shows "no_break (version_string w)" "no_break (getfilesystemencoding w)"
    "no_break (formatdate w t)" "no_break (guess_type w p)" "no_break (redirect_url w p)"
    "no_break (py_repr w s)" "no_break (reason w c None)" "no_break (error_message w c None)"
proof -
  show "no_break (version_string w)" "no_break (getfilesystemencoding w)"
    "no_break (formatdate w t)" "no_break (guess_type w p)" "no_break (redirect_url w p)"
    "no_break (py_repr w s)"
    using assms by (simp_all add: clean_def)
  have "case responses w c of None \<Rightarrow> True | Some (short, long) \<Rightarrow> no_break short"
    using assms by (simp add: clean_def)
  then show "no_break (reason w c None)" "no_break (error_message w c None)"
    by (auto simp add: reason_def error_message_def split: option.splits)
qed

lemma reason_message [simp]: "reason w c (Some m) = m" "error_message w c (Some m) = m"
  by (simp_all add: reason_def error_message_def)

lemma split_acc_words:
  "x \<in> set (split_acc cur s) \<Longrightarrow> \<forall>c \<in> set cur. \<not> is_space c \<Longrightarrow> \<forall>c \<in> set x. \<not> is_space c"
proof (induction s arbitrary: cur)
  case Nil
  then show ?case by (simp split: if_splits)
next
  case (Cons a s)
  show ?case
  proof (cases "is_space a")
    case True
    then have "x = cur \<or> x \<in> set (split_acc [] s)"
      using Cons.prems(1) by (simp split: if_splits)
    then show ?thesis
    proof
      assume "x = cur"
      then show ?thesis using Cons.prems(2) by simp
    next
      assume "x \<in> set (split_acc [] s)"
      then show ?thesis by (rule Cons.IH) simp
    qed
  next
    case False
    then have "x \<in> set (split_acc (cur @ [a]) s)" using Cons.prems(1) by simp
    moreover have "\<forall>c \<in> set (cur @ [a]). \<not> is_space c" using False Cons.prems(2) by simp
    ultimately show ?thesis by (rule Cons.IH)
  qed
qed

lemma split_ws_no_break:
  assumes "x \<in> set (split_ws s)"
  shows "no_break x"
proof -
  have "\<forall>c \<in> set x. \<not> is_space c"
    using split_acc_words [of x "[]" s] assms by (simp add: split_ws_def)
  moreover have "is_space (CHR 0x0D)" "is_space (CHR 0x0A)" by (simp_all add: is_space_def)
  ultimately show ?thesis by (auto simp add: no_break_def)
qed

lemma end_headers_state:
  assumes "request_version h \<noteq> ''HTTP/0.9''"
  shows "end_headers h =
           Return () (h\<lparr>headers_buffer := Some [],
                        wfile := wfile h @ concat (buffered h @ no_cache_lines @ [CRLF])\<rparr>)"
  using end_headers_new [OF assms] by simp

subsection \<open>Every response path ends in the override\<close>

lemma respondedI:
  assumes "request_version hp \<noteq> ''HTTP/0.9''" "wfile hp = wfile h"
    "buffered hp = buffered h @ L" "list_all (plain w) L" "L \<noteq> []"
  shows "responded w h
          (hp\<lparr>headers_buffer := Some [],
               wfile := wfile hp @ concat (buffered hp @ no_cache_lines @ [CRLF]) @ B\<rparr>)"
  unfolding responded_def using assms by auto

lemma respondedI0:
  assumes "request_version hp \<noteq> ''HTTP/0.9''" "wfile hp = wfile h"
    "buffered hp = buffered h @ L" "list_all (plain w) L" "L \<noteq> []"
  shows "responded w h
          (hp\<lparr>headers_buffer := Some [],
               wfile := wfile hp @ concat (buffered hp @ no_cache_lines @ [CRLF])\<rparr>)"
  using respondedI [OF assms, where B = "[]"] by simp

lemma send_error_new:
  assumes v: "request_version h \<noteq> ''HTTP/0.9''"
    and msg: "clean w \<longrightarrow> no_break (error_message w c m)"
  shows "\<exists>h'. send_error end_headers w c m x h = Return () h' \<and> kept h h' \<and>
              close_connection h' \<and> responded w h h'"
proof -
  define h1 where "h1 = send_header ''Connection'' ''close''
                 (send_response w c (Some (error_message w c m)) h)"
  define hp where "hp = (case error_body w c m x of None \<Rightarrow> h1
     | Some b \<Rightarrow> send_header ''Content-Length'' (str_nat (length b))
                             (send_header ''Content-Type'' error_content_type h1))"
  define hf where "hf = hp\<lparr>headers_buffer := Some [],
                        wfile := wfile hp @ concat (buffered hp @ no_cache_lines @ [CRLF])\<rparr>"
  have vp: "request_version hp \<noteq> ''HTTP/0.9''"
    using v by (simp add: hp_def h1_def split: option.splits)
  have eh: "end_headers hp = Return () hf"
    unfolding hf_def by (rule end_headers_state [OF vp])
  have se: "send_error end_headers w c m x h =
     (case error_body w c m x of None \<Rightarrow> Return () hf
      | Some b \<Rightarrow> if command hf \<noteq> Some ''HEAD'' \<and> b \<noteq> []
                  then Return () (hf\<lparr>wfile := wfile hf @ b\<rparr>) else Return () hf)"
    using eh [unfolded hp_def h1_def]
    by (simp add: send_error_def Let_def)
  have wp: "wfile hp = wfile h" by (simp add: hp_def h1_def split: option.splits)
  obtain L where L: "buffered hp = buffered h @ L" "list_all (plain w) L" "L \<noteq> []"
    using v msg by (cases "error_body w c m x") (simp_all add: hp_def h1_def)
  have k: "kept h hp" "close_connection hp"
    by (simp_all add: kept_def hp_def h1_def split: option.splits)
  have r0: "responded w h hf"
    unfolding hf_def by (rule respondedI0 [OF vp wp L])
  have rb: "responded w h (hf\<lparr>wfile := wfile hf @ b\<rparr>)" for b
    using respondedI [OF vp wp L, of b] by (simp add: hf_def)
  have kf: "kept h hf" "close_connection hf" "kept h (hf\<lparr>wfile := wfile hf @ b\<rparr>)"
     "close_connection (hf\<lparr>wfile := wfile hf @ b\<rparr>)" for b
    using k by (simp_all add: kept_def hf_def)
  show ?thesis
    unfolding se using r0 rb kf by (auto split: option.splits)
qed

lemma send_error_old:
  assumes v: "request_version h = ''HTTP/0.9''"
  shows "\<exists>h'. send_error end_headers w c m x h = Return () h' \<and> kept h h' \<and>
              close_connection h' \<and> responded w h h'"
proof -
  have "end_headers hp = Return () hp" if "request_version hp = ''HTTP/0.9''" for hp
    using that by (rule end_headers_old)
  then show ?thesis
    using v
    by (auto simp add: send_error_def Let_def kept_def responded_def split: option.splits)
qed

lemma responded_append:
  assumes "responded w h h1"
  shows "responded w h (h1\<lparr>wfile := wfile h1 @ B\<rparr>)"
proof -
  have "\<exists>L B'. list_all (plain w) L \<and> L \<noteq> [] \<and>
          wfile h1 @ B = wfile h @ concat (buffered h @ L @ no_cache_lines @ [CRLF]) @ B'"
    if "\<exists>L B'. list_all (plain w) L \<and> L \<noteq> [] \<and>
          wfile h1 = wfile h @ concat (buffered h @ L @ no_cache_lines @ [CRLF]) @ B'"
  proof -
    from that obtain L B' where "list_all (plain w) L" "L \<noteq> []"
      "wfile h1 = wfile h @ concat (buffered h @ L @ no_cache_lines @ [CRLF]) @ B'" by blast
    then have "list_all (plain w) L \<and> L \<noteq> [] \<and>
      wfile h1 @ B = wfile h @ concat (buffered h @ L @ no_cache_lines @ [CRLF]) @ (B' @ B)"
      by simp
    then show ?thesis by blast
  qed
  then show ?thesis using assms by (simp add: responded_def)
qed

lemma kept_append: "kept h h1 \<Longrightarrow> kept h (h1\<lparr>wfile := wfile h1 @ B\<rparr>)"
  by (simp add: kept_def)

lemma finish_headers:
  assumes "kept h hp" "wfile hp = wfile h"
    and "request_version h \<noteq> ''HTTP/0.9'' \<Longrightarrow>
           \<exists>L. buffered hp = buffered h @ L \<and> list_all (plain w) L \<and> L \<noteq> []"
  shows "\<exists>h'. end_headers hp = Return () h' \<and> kept h h' \<and> responded w h h'
           \<and> close_connection h' = close_connection hp"
proof (cases "request_version h = ''HTTP/0.9''")
  case True
  then have "request_version hp = ''HTTP/0.9''" using assms(1) by (simp add: kept_def)
  then have "end_headers hp = Return () hp" by (rule end_headers_old)
  moreover have "responded w h hp" using True assms(1) by (simp add: responded_def kept_def)
  ultimately show ?thesis using assms(1) by simp
next
  case False
  then have vp: "request_version hp \<noteq> ''HTTP/0.9''" using assms(1) by (simp add: kept_def)
  from assms(3) [OF False] obtain L where L: "buffered hp = buffered h @ L" "list_all (plain w) L" "L \<noteq> []"
    by blast
  have "responded w h (hp\<lparr>headers_buffer := Some [],
               wfile := wfile hp @ concat (buffered hp @ no_cache_lines @ [CRLF])\<rparr>)"
    by (rule respondedI0 [OF vp assms(2) L])
  moreover have "kept h (hp\<lparr>headers_buffer := Some [],
               wfile := wfile hp @ concat (buffered hp @ no_cache_lines @ [CRLF])\<rparr>)"
    using assms(1) by (simp add: kept_def)
  ultimately show ?thesis
    using end_headers_state [OF vp] by simp
qed

lemma send_error_post:
  assumes "clean w \<longrightarrow> no_break (error_message w c m)"
  shows "\<exists>h'. send_error end_headers w c m x h = Return () h' \<and> kept h h' \<and>
              close_connection h' \<and> responded w h h'"
  using send_error_new [OF _ assms] send_error_old by blast

lemma reject_post:
  assumes "clean w \<longrightarrow> no_break m"
  shows "\<exists>h'. reject end_headers w c m x h = Return False h' \<and> kept h h' \<and>
              close_connection h' \<and> responded w h h'"
  using send_error_post [of w c "Some m" x h] assms by (auto simp add: reject_def)

lemma list_directory_post:
  "\<exists>r h'. list_directory end_headers w p h = Return r h' \<and> kept h h' \<and> responded w h h'"
proof (cases "listing w p (path h)")
  case None
  then show ?thesis
    using send_error_post [of w 404 "Some ''No permission to list directory''" None h]
    by (auto simp add: list_directory_def)
next
  case (Some encoded)
  define hp where "hp = send_header ''Content-Length'' (str_nat (length encoded))
                     (send_header ''Content-type''
                        (''text/html; charset='' @ getfilesystemencoding w)
                        (send_response w 200 None h))"
  have "\<exists>h'. end_headers hp = Return () h' \<and> kept h h' \<and> responded w h h'
           \<and> close_connection h' = close_connection hp"
    by (rule finish_headers) (simp_all add: hp_def kept_def)
  then show ?thesis
    using Some by (auto simp add: list_directory_def hp_def)
qed

lemma send_file_post:
  "\<exists>r h'. send_file end_headers w p h = Return r h' \<and> kept h h' \<and> responded w h h'"
proof -
  obtain he where e: "send_error end_headers w 404 (Some ''File not found'') None h = Return () he"
      "kept h he" "responded w h he"
    using send_error_post [of w 404 "Some ''File not found''" None h] by auto
  show ?thesis
  proof (cases "ends_with_slash p")
    case True
    then show ?thesis using e by (simp add: send_file_def)
  next
    case slash: False
    show ?thesis
    proof (cases "open_rb w p")
      case None
      then show ?thesis using e slash by (simp add: send_file_def)
    next
      case (Some f)
      show ?thesis
      proof (cases "not_modified w h f")
        case True
        obtain hn where n: "end_headers (send_response w 304 None h) = Return () hn"
            "kept h hn" "responded w h hn"
          using finish_headers [of h "send_response w 304 None h" w] by (auto simp add: kept_def)
        then show ?thesis using Some slash True by (simp add: send_file_def)
      next
        case False
        define hp where "hp = send_header ''Last-Modified'' (formatdate w (st_mtime f))
                                   (send_header ''Content-Length'' (str_nat (st_size f))
                                     (send_header ''Content-type'' (guess_type w p)
                                       (send_response w 200 None h)))"
        obtain hf where f: "end_headers hp = Return () hf" "kept h hf" "responded w h hf"
          using finish_headers [of h hp w] by (auto simp add: kept_def hp_def)
        then show ?thesis using Some slash False by (simp add: send_file_def hp_def)
      qed
    qed
  qed
qed

lemma send_head_post:
  "\<exists>r h'. send_head end_headers w h = Return r h' \<and> kept h h' \<and> responded w h h'"
proof (cases "isdir w (translate w (directory h) (path h))")
  case False
  then show ?thesis
    using send_file_post [of w "translate w (directory h) (path h)" h]
    by (simp add: send_head_def)
next
  case dir: True
  show ?thesis
  proof (cases "ends_with_slash (url_path w (path h))")
    case False
    define hp where "hp = send_header ''Content-Length'' ''0''
                               (send_header ''Location'' (redirect_url w (path h))
                                 (send_response w 301 None h))"
    obtain hf where f: "end_headers hp = Return () hf" "kept h hf" "responded w h hf"
      using finish_headers [of h hp w] by (auto simp add: kept_def hp_def)
    then show ?thesis using dir False by (simp add: send_head_def hp_def)
  next
    case True
    show ?thesis
    proof (cases "find_index w (translate w (directory h) (path h))")
      case None
      then show ?thesis
        using dir True list_directory_post [of w "translate w (directory h) (path h)" h]
        by (simp add: send_head_def)
    next
      case (Some index)
      then show ?thesis
        using dir True send_file_post [of w index h]
        by (simp add: send_head_def)
    qed
  qed
qed

lemma copyfile_post:
  "kept h (state_of (copyfile f h)) \<and> (\<exists>B. wfile (state_of (copyfile f h)) = wfile h @ B)
   \<and> headers_buffer (state_of (copyfile f h)) = headers_buffer h"
  by (simp add: copyfile_def state_of_def kept_def split: option.splits)

lemma do_HEAD_post:
  "\<exists>h'. do_HEAD end_headers w h = Return () h' \<and> kept h h' \<and> responded w h h'"
  using send_head_post [of w h] by (auto simp add: do_HEAD_def)

lemma do_GET_post:
  "kept h (state_of (do_GET end_headers w h)) \<and> responded w h (state_of (do_GET end_headers w h))"
proof -
  obtain r h1 where s: "send_head end_headers w h = Return r h1" "kept h h1" "responded w h h1"
    using send_head_post [of w h] by blast
  show ?thesis
  proof (cases r)
    case None
    then show ?thesis using s by (simp add: do_GET_def state_of_def)
  next
    case (Some f)
    have "state_of (copyfile f h1) = h1\<lparr>wfile := wfile h1 @ (case read_fails f of None \<Rightarrow> data f | Some n \<Rightarrow> take n (data f))\<rparr>"
      by (simp add: copyfile_def state_of_def split: option.splits)
    then show ?thesis
      using s Some responded_append [OF s(3)] kept_append [OF s(2)]
      by (simp add: do_GET_def)
  qed
qed

subsection \<open>Parsing and dispatch\<close>

lemma responded_cong:
  assumes "wfile h1 = wfile h" "headers_buffer h1 = headers_buffer h"
  shows "responded w h1 h' = responded w h h'"
  using assms by (simp add: responded_def buffered_def)

lemma parsed_reject:
  assumes "directory h1 = directory h" "wfile h1 = wfile h" "headers_buffer h1 = headers_buffer h"
    and "clean w \<longrightarrow> no_break m"
  shows "parsed w h (reject end_headers w c m x h1)"
proof -
  obtain h' where r: "reject end_headers w c m x h1 = Return False h'" "kept h1 h'"
      "close_connection h'" "responded w h1 h'"
    using reject_post [OF assms(4), of c x h1] by blast
  have "responded w h h'" using r(4) responded_cong [OF assms(2,3)] by simp
  then show ?thesis using r assms(1-3) by (simp add: parsed_def kept_def)
qed

lemma parsed_header_section:
  assumes "directory h1 = directory h" "wfile h1 = wfile h" "headers_buffer h1 = headers_buffer h"
    "close_connection h1" "command h1 \<noteq> None"
  shows "parsed w h (parse_header_section end_headers w r h1)"
proof (cases "header_section r")
  case (LineTooLong err)
  then show ?thesis
    using parsed_reject [OF assms(1-3), of w] by (simp add: parse_header_section_def)
next
  case (TooManyHeaders err)
  then show ?thesis
    using parsed_reject [OF assms(1-3), of w] by (simp add: parse_header_section_def)
next
  case (Parsed hs)
  then show ?thesis using assms
    by (simp add: parse_header_section_def Let_def parsed_def)
qed

lemma parsed_words:
  assumes "directory h1 = directory h" "wfile h1 = wfile h" "headers_buffer h1 = headers_buffer h"
    "close_connection h1"
  shows "parsed w h (parse_words end_headers w r line words h1)"
proof -
  have rj: "parsed w h (reject end_headers w c
                (''Bad HTTP/0.9 request type ('' @ py_repr w t @ '')'') x
                (h1\<lparr>close_connection := True\<rparr>))" for c t x
    by (rule parsed_reject) (simp_all add: assms)
  have rj1: "parsed w h (reject end_headers w c
                (''Bad request syntax ('' @ py_repr w t @ '')'') x h1)" for c t x
    by (rule parsed_reject) (simp_all add: assms)
  have hs: "parsed w h (parse_header_section end_headers w r (h1\<lparr>close_connection := True, command := Some cmd, path := p\<rparr>))" for cmd p
    by (rule parsed_header_section) (simp_all add: assms)
  have hs1: "parsed w h (parse_header_section end_headers w r (h1\<lparr>command := Some cmd, path := p\<rparr>))" for cmd p
    by (rule parsed_header_section) (simp_all add: assms)
  show ?thesis
    using rj rj1 hs hs1
    by (simp add: parse_words_def Let_def split: list.splits)
qed

lemma parsed_request: "parsed w h (parse_request end_headers w r h)"
proof -
  define h0 where "h0 = h\<lparr>command := None, request_version := default_request_version,
                 close_connection := True\<rparr>"
  have h0: "directory h0 = directory h" "wfile h0 = wfile h" "headers_buffer h0 = headers_buffer h"
    "close_connection h0" by (simp_all add: h0_def)
  have vs: "no_break (drop 5 (last (split_ws s)))" if "split_ws s \<noteq> []" for s
    by (rule no_break_drop, rule split_ws_no_break [of _ s], rule last_in_set, rule that)
  have rj: "parsed w h (reject end_headers w c
              (''Bad request version ('' @ py_repr w t @ '')'') x h0)" for c t x
    by (rule parsed_reject) (simp_all add: h0)
  have rv: "parsed w h (reject end_headers w c
              (''Invalid HTTP version ('' @ drop 5 (last (split_ws s)) @ '')'') x h0)"
    if "split_ws s \<noteq> []" for c s x
    by (rule parsed_reject) (simp_all add: h0 vs [OF that])
  have pw: "parsed w h (parse_words end_headers w r line words h0)" for line words
    by (rule parsed_words) (simp_all add: h0)
  have pv: "parsed w h (parse_words end_headers w r line words (h0\<lparr>request_version := v\<rparr>))" for line words v
    by (rule parsed_words) (simp_all add: h0)
  have e: "parsed w h (Return False h0)" by (simp add: parsed_def h0)
  show ?thesis
    using rj rv pw pv e
    by (simp add: parse_request_def Let_def h0_def [symmetric] split: option.splits prod.splits)
qed

lemma handled_one_request: "handled w h (handle_one_request end_headers w r h)"
proof (cases "length (raw_requestline r) > 65536")
  case True
  define h1 where "h1 = h\<lparr>request_version := [], command := Some []\<rparr>"
  obtain h' where e: "send_error end_headers w 414 None None h1 = Return () h'" "kept h1 h'"
     "close_connection h'" "responded w h1 h'"
    using send_error_post [of w 414 None None h1] by auto
  have "responded w h h'" using e(4) responded_cong [of h1 h w h'] by (simp add: h1_def)
  then show ?thesis
    using True e by (simp add: handle_one_request_def handled_def state_of_def h1_def kept_def)
next
  case short: False
  show ?thesis
  proof (cases "raw_requestline r = []")
    case True
    then show ?thesis by (simp add: handle_one_request_def handled_def state_of_def)
  next
    case False
    have p: "parsed w h (parse_request end_headers w r h)" by (rule parsed_request)
    show ?thesis
    proof (cases "parse_request end_headers w r h")
      case (Raise e h1)
      then show ?thesis using p by (simp add: parsed_def)
    next
      case (Return b h1)
      then have h1: "directory h1 = directory h" "close_connection h1"
         "b \<longrightarrow> command h1 \<noteq> None"
         "(wfile h1 = wfile h \<and> headers_buffer h1 = headers_buffer h) \<or> (\<not> b \<and> responded w h h1)"
        using p by (simp_all add: parsed_def)
      show ?thesis
      proof (cases b)
        case False
        then show ?thesis
          using Return h1 short \<open>raw_requestline r \<noteq> []\<close>
          by (simp add: handle_one_request_def handled_def state_of_def)
      next
        case True
        then obtain cmd where cmd: "command h1 = Some cmd" using h1(3) by auto
        have same: "wfile h1 = wfile h" "headers_buffer h1 = headers_buffer h"
          using h1(4) True by simp_all
        have g: "handled w h (do_GET end_headers w h1)"
          using do_GET_post [of h1 w] h1(1,2) same responded_cong [OF same]
          by (simp add: handled_def kept_def)
        have hd: "handled w h (do_HEAD end_headers w h1)"
        proof -
          obtain h' where "do_HEAD end_headers w h1 = Return () h'" "kept h1 h'" "responded w h1 h'"
            using do_HEAD_post [of w h1] by blast
          then show ?thesis
            using h1(1,2) same responded_cong [OF same]
            by (simp add: handled_def kept_def state_of_def)
        qed
        have u: "handled w h (send_error end_headers w 501
                     (Some (''Unsupported method ('' @ py_repr w t @ '')'')) x h1)" for t x
        proof -
          obtain h' where "send_error end_headers w 501
                (Some (''Unsupported method ('' @ py_repr w t @ '')'')) x h1 = Return () h'"
             "kept h1 h'" "close_connection h'" "responded w h1 h'"
            using send_error_post [of w 501 "Some (''Unsupported method ('' @ py_repr w t @ '')'')"
                x h1] by auto
          then show ?thesis
            using h1(1,2) same responded_cong [OF same]
            by (simp add: handled_def kept_def state_of_def)
        qed
        show ?thesis
          using Return True cmd short \<open>raw_requestline r \<noteq> []\<close> g hd u
          by (simp add: handle_one_request_def)
      qed
    qed
  qed
qed

lemma handle_more_closed:
  "close_connection h \<Longrightarrow> handle_more eh w rs h = Return () h"
  by (cases rs) simp_all

lemma handle_once:
  "handle end_headers w rs h =
     (case handle_one_request end_headers w (case rs of [] \<Rightarrow> end_of_input | r # _ \<Rightarrow> r)
             (h\<lparr>close_connection := True\<rparr>) of
        Raise e h1 \<Rightarrow> Raise e h1
      | Return _ h1 \<Rightarrow> Return () h1)"
proof -
  let ?out = "handle_one_request end_headers w (case rs of [] \<Rightarrow> end_of_input | r # _ \<Rightarrow> r)
             (h\<lparr>close_connection := True\<rparr>)"
  have "handled w (h\<lparr>close_connection := True\<rparr>) ?out" by (rule handled_one_request)
  then have "close_connection (state_of ?out)" by (simp add: handled_def)
  then show ?thesis
    by (cases ?out) (simp_all add: handle_def state_of_def handle_more_closed)
qed

lemma finish_request_directory:
  "directory (state_of (finish_request end_headers cwd conn)) = cwd"
proof -
  let ?r = "case snd conn of [] \<Rightarrow> end_of_input | r # _ \<Rightarrow> r"
  let ?h = "(new_handler cwd)\<lparr>close_connection := True\<rparr>"
  have "handled (fst conn) ?h (handle_one_request end_headers (fst conn) ?r ?h)"
    by (rule handled_one_request)
  then have "directory (state_of (handle_one_request end_headers (fst conn) ?r ?h)) = cwd"
    by (simp add: handled_def new_handler_def)
  then show ?thesis
    by (cases "handle_one_request end_headers (fst conn) ?r ?h")
       (simp_all add: finish_request_def handle_once state_of_def)
qed

lemma handled_block:
  assumes "clean w" "buffered h = []"
    and "request_version (state_of (handle_one_request end_headers w r h)) \<noteq> ''HTTP/0.9''"
    and "wfile (state_of (handle_one_request end_headers w r h)) \<noteq> wfile h"
  shows "\<exists>L B. list_all plain_line L \<and> L \<noteq> [] \<and>
           wfile (state_of (handle_one_request end_headers w r h)) =
             wfile h @ concat (L @ no_cache_lines @ [CRLF]) @ B"
proof -
  have "handled w h (handle_one_request end_headers w r h)" by (rule handled_one_request)
  then have "responded w h (state_of (handle_one_request end_headers w r h))"
    using assms(4) by (auto simp add: handled_def)
  then show ?thesis using assms(1,2,3) by (simp add: responded_def plain_all)
qed

lemma is_loopback_host: "is_loopback ''127.0.0.1''"
  by code_simp


subsection \<open>The header block on the wire\<close>

lemma header_lines_skip:
  assumes "no_break b"
  shows "header_lines cur (b @ CRLF @ rest) = header_lines (rev b @ cur) (CRLF @ rest)"
  using assms
proof (induction b arbitrary: cur)
  case Nil
  then show ?case by simp
next
  case (Cons x b)
  obtain d ds where n: "b @ CRLF @ rest = d # ds"
    by (cases b) (simp_all add: CRLF_def)
  have x: "x \<noteq> CHR 0x0D" and b: "no_break b" using Cons.prems by simp_all
  have "header_lines cur ((x # b) @ CRLF @ rest) = header_lines (x # cur) (b @ CRLF @ rest)"
    using x by (simp add: n)
  also have "\<dots> = header_lines (rev b @ x # cur) (CRLF @ rest)" by (rule Cons.IH [OF b])
  finally show ?case by simp
qed

lemma header_lines_line:
  assumes "no_break b" "b \<noteq> []"
  shows "header_lines [] (b @ CRLF @ rest) =
           (case header_lines [] rest of
              None \<Rightarrow> None
            | Some (ls, body) \<Rightarrow> Some ((b @ CRLF) # ls, body))"
  unfolding header_lines_skip [OF assms(1)] using assms(2)
  by (cases "header_lines [] rest") (auto simp add: CRLF_def)

lemma header_block_lines:
  assumes "list_all wire_line L"
  shows "header_block (concat (L @ [CRLF]) @ B) = Some (L, B)"
  using assms
proof (induction L)
  case Nil
  then show ?case by (simp add: header_block_def CRLF_def)
next
  case (Cons l L)
  then obtain b where b: "l = b @ CRLF" "b \<noteq> []" "no_break b"
    using wire_lineD [of l] by auto
  have "header_lines [] (b @ CRLF @ (concat (L @ [CRLF]) @ B)) = Some ((b @ CRLF) # L, B)"
    unfolding header_lines_line [OF b(3,2)]
    using Cons by (simp add: header_block_def)
  then show ?case by (simp add: header_block_def b(1))
qed

lemma handled_wire:
  assumes "clean w" "buffered h = []"
    and "request_version (state_of (handle_one_request end_headers w r h)) \<noteq> ''HTTP/0.9''"
    and "wfile (state_of (handle_one_request end_headers w r h)) \<noteq> wfile h"
  shows "\<exists>L B. header_block (drop (length (wfile h))
                   (wfile (state_of (handle_one_request end_headers w r h)))) =
                 Some (L @ no_cache_lines, B) \<and>
               list_all plain_line L \<and> L \<noteq> []"
proof -
  obtain L B where L: "list_all plain_line L" "L \<noteq> []"
     "wfile (state_of (handle_one_request end_headers w r h)) =
        wfile h @ concat (L @ no_cache_lines @ [CRLF]) @ B"
    using handled_block [OF assms] by blast
  have "list_all wire_line (L @ no_cache_lines)"
    using L(1) wire_no_cache_lines by (auto simp add: list_all_iff plain_line_def)
  then have "header_block (concat ((L @ no_cache_lines) @ [CRLF]) @ B) =
               Some (L @ no_cache_lines, B)"
    by (rule header_block_lines)
  then have "header_block (drop (length (wfile h))
                   (wfile (state_of (handle_one_request end_headers w r h)))) =
                 Some (L @ no_cache_lines, B)"
    by (simp add: L(3))
  then show ?thesis using L(1,2) by blast
qed

lemma handled_prefix:
  assumes "clean w" "buffered h = []"
    and "request_version (state_of (handle_one_request end_headers w r h)) \<noteq> ''HTTP/0.9''"
    and "wfile (state_of (handle_one_request end_headers w r h)) \<noteq> wfile h"
  shows "take (length (wfile h)) (wfile (state_of (handle_one_request end_headers w r h))) =
           wfile h"
proof -
  obtain L B where "wfile (state_of (handle_one_request end_headers w r h)) =
        wfile h @ concat (L @ no_cache_lines @ [CRLF]) @ B"
    using handled_block [OF assms] by blast
  then show ?thesis by simp
qed

lemma count_no_cache_block:
  assumes "list_all plain_line L" "l \<in> set no_cache_lines"
  shows "count_list (L @ no_cache_lines) l = 1"
proof -
  have "l \<notin> set L" using assms by (auto simp add: list_all_iff plain_line_def)
  then have "count_list L l = 0" by (simp add: count_list_0_iff)
  moreover have "count_list no_cache_lines l = 1"
    using assms(2) by (auto simp add: no_cache_lines_def CRLF_def)
  ultimately show ?thesis by simp
qed

subsection \<open>The responses, byte by byte\<close>

lemma parse_request_versioned:
  assumes "split_ws (rstrip_crlf (raw_requestline r)) = [cmd, p, v]"
    "parse_version v = Some (major, minor)" "major < 2"
    "header_section r = Parsed hs" "\<not> starts_with ''//'' p"
  shows "parse_request eh w r h =
           Return True (h\<lparr>command := Some cmd, request_version := v, close_connection := True,
                          path := p, headers := hs\<rparr>)"
  using assms
  by (simp add: parse_request_def parse_words_def parse_header_section_def Let_def)


lemma handle_one_request_parsed:
  assumes "raw_requestline r \<noteq> []" "length (raw_requestline r) \<le> 65536"
    "parse_request eh w r h = Return True h1"
  shows "command h1 = Some ''GET'' \<Longrightarrow> handle_one_request eh w r h = do_GET eh w h1"
    and "command h1 = Some ''HEAD'' \<Longrightarrow> handle_one_request eh w r h = do_HEAD eh w h1"
  using assms by (simp_all add: handle_one_request_def)



lemma header_calls_flushed:
  assumes "request_version h \<noteq> ''HTTP/0.9''"
    and "lower k1 \<noteq> ''connection''" "lower k2 \<noteq> ''connection''" "lower k3 \<noteq> ''connection''"
  shows "end_headers (send_header k3 v3 (send_header k2 v2 (send_header k1 v1
            (send_response w code None h)))) =
         Return () (h\<lparr>headers_buffer := Some [],
           wfile := wfile h @ concat (buffered h @
             [status_line code (reason w code None),
              header_line ''Server'' (version_string w),
              header_line ''Date'' (formatdate w (time_now w)),
              header_line k1 v1, header_line k2 v2, header_line k3 v3]
             @ no_cache_lines @ [CRLF])\<rparr>)"
proof -
  define hp where "hp = send_header k3 v3 (send_header k2 v2 (send_header k1 v1
            (send_response w code None h)))"
  have vp: "request_version hp \<noteq> ''HTTP/0.9''" using assms by (simp add: hp_def)
  have hpe: "hp\<lparr>headers_buffer := Some []\<rparr> = h\<lparr>headers_buffer := Some []\<rparr>"
    using assms
    by (simp add: hp_def send_response_def send_response_only_def send_header_def
        buffer_append_def Let_def)
  have x: "hp\<lparr>headers_buffer := Some [], wfile := X\<rparr> = h\<lparr>headers_buffer := Some [], wfile := X\<rparr>" for X
    using hpe by (metis (no_types) handler.surjective handler.update_convs(8))
  have f: "buffered hp = buffered h @ [status_line code (reason w code None),
              header_line ''Server'' (version_string w),
              header_line ''Date'' (formatdate w (time_now w)),
              header_line k1 v1, header_line k2 v2, header_line k3 v3]" "wfile hp = wfile h"
    using assms(1) by (simp_all add: hp_def)
  show ?thesis
    using end_headers_state [OF vp] x f by (simp add: hp_def)
qed

lemma send_file_ok:
  assumes "request_version h \<noteq> ''HTTP/0.9''" "\<not> ends_with_slash p" "open_rb w p = Some f"
    "\<not> not_modified w h f"
  shows "send_file end_headers w p h =
           Return (Some (contents f)) (h\<lparr>headers_buffer := Some [],
             wfile := wfile h @ concat (buffered h @
               [status_line 200 (reason w 200 None),
                header_line ''Server'' (version_string w),
                header_line ''Date'' (formatdate w (time_now w)),
                header_line ''Content-type'' (guess_type w p),
                header_line ''Content-Length'' (str_nat (st_size f)),
                header_line ''Last-Modified'' (formatdate w (st_mtime f))]
               @ no_cache_lines @ [CRLF])\<rparr>)"
  using assms header_calls_flushed [OF assms(1), of "''Content-type''" "''Content-Length''"
      "''Last-Modified''" "formatdate w (st_mtime f)" "str_nat (st_size f)" "guess_type w p" w 200]
  by (simp add: send_file_def)




lemma send_head_plain_file:
  assumes "\<not> isdir w (translate w (directory h) (path h))"
  shows "send_head eh w h = send_file eh w (translate w (directory h) (path h)) h"
  using assms by (simp add: send_head_def)

lemma do_GET_ok:
  assumes "request_version h \<noteq> ''HTTP/0.9''"
    and "\<not> isdir w (translate w (directory h) (path h))"
    and "\<not> ends_with_slash (translate w (directory h) (path h))"
    and "open_rb w (translate w (directory h) (path h)) = Some f"
    and "\<not> not_modified w h f"
  shows "do_GET end_headers w h =
           copyfile (contents f) (h\<lparr>headers_buffer := Some [],
             wfile := wfile h @ concat (buffered h @
               [status_line 200 (reason w 200 None),
                header_line ''Server'' (version_string w),
                header_line ''Date'' (formatdate w (time_now w)),
                header_line ''Content-type'' (guess_type w (translate w (directory h) (path h))),
                header_line ''Content-Length'' (str_nat (st_size f)),
                header_line ''Last-Modified'' (formatdate w (st_mtime f))]
               @ no_cache_lines @ [CRLF])\<rparr>)"
  using assms send_file_ok [OF assms(1,3,4,5)]
  by (simp add: do_GET_def send_head_plain_file)






subsection \<open>Whole requests\<close>







lemma fresh_request:
  "directory ((new_handler cwd)\<lparr>command := Some cmd, request_version := v,
      close_connection := True, path := p, headers := hs\<rparr>) = cwd"
  "path ((new_handler cwd)\<lparr>command := Some cmd, request_version := v,
      close_connection := True, path := p, headers := hs\<rparr>) = p"
  "request_version ((new_handler cwd)\<lparr>command := Some cmd, request_version := v,
      close_connection := True, path := p, headers := hs\<rparr>) = v"
  "command ((new_handler cwd)\<lparr>command := Some cmd, request_version := v,
      close_connection := True, path := p, headers := hs\<rparr>) = Some cmd"
  "headers ((new_handler cwd)\<lparr>command := Some cmd, request_version := v,
      close_connection := True, path := p, headers := hs\<rparr>) = hs"
  "buffered ((new_handler cwd)\<lparr>command := Some cmd, request_version := v,
      close_connection := True, path := p, headers := hs\<rparr>) = []"
  "wfile ((new_handler cwd)\<lparr>command := Some cmd, request_version := v,
      close_connection := True, path := p, headers := hs\<rparr>) = []"
  by (simp_all add: new_handler_def buffered_def)

lemma handle_versioned:
  assumes "raw_requestline r \<noteq> []" "length (raw_requestline r) \<le> 65536"
    "split_ws (rstrip_crlf (raw_requestline r)) = [cmd, p, v]"
    "parse_version v = Some (major, minor)" "major < 2"
    "header_section r = Parsed hs" "\<not> starts_with ''//'' p"
  shows "cmd = ''GET'' \<Longrightarrow> handle_one_request end_headers w r h =
           do_GET end_headers w (h\<lparr>command := Some cmd, request_version := v,
             close_connection := True, path := p, headers := hs\<rparr>)"
    and "cmd = ''HEAD'' \<Longrightarrow> handle_one_request end_headers w r h =
           do_HEAD end_headers w (h\<lparr>command := Some cmd, request_version := v,
             close_connection := True, path := p, headers := hs\<rparr>)"
proof -
  note p = parse_request_versioned [OF assms(3,4,5,6,7), of end_headers w h]
  show "cmd = ''GET'' \<Longrightarrow> handle_one_request end_headers w r h =
           do_GET end_headers w (h\<lparr>command := Some cmd, request_version := v,
             close_connection := True, path := p, headers := hs\<rparr>)"
    using handle_one_request_parsed(1) [OF assms(1,2) p] by simp
  show "cmd = ''HEAD'' \<Longrightarrow> handle_one_request end_headers w r h =
           do_HEAD end_headers w (h\<lparr>command := Some cmd, request_version := v,
             close_connection := True, path := p, headers := hs\<rparr>)"
    using handle_one_request_parsed(2) [OF assms(1,2) p] by simp
qed


lemma unconditional: "hdr_get (headers h) ''If-Modified-Since'' = None \<Longrightarrow> \<not> not_modified w h f"
  by (simp add: not_modified_def)

lemma opened_response:
  assumes "raw_requestline r \<noteq> []" "length (raw_requestline r) \<le> 65536"
    and "split_ws (rstrip_crlf (raw_requestline r)) = [''GET'', p, v]"
    and "parse_version v = Some (major, minor)" "major < 2" "v \<noteq> ''HTTP/0.9''"
    and "header_section r = Parsed hs" "\<not> starts_with ''//'' p"
    and "hdr_get hs ''If-Modified-Since'' = None"
    and "\<not> isdir w (translate w cwd p)" "\<not> ends_with_slash (translate w cwd p)"
    and "open_rb w (translate w cwd p) = Some f"
  shows "handle_one_request end_headers w r (new_handler cwd) =
           copyfile (contents f)
             ((new_handler cwd)\<lparr>command := Some ''GET'', request_version := v,
                close_connection := True, path := p, headers := hs,
                headers_buffer := Some [],
                wfile := concat ([status_line 200 (reason w 200 None),
                      header_line ''Server'' (version_string w),
                      header_line ''Date'' (formatdate w (time_now w)),
                      header_line ''Content-type'' (guess_type w (translate w cwd p)),
                      header_line ''Content-Length'' (str_nat (st_size f)),
                      header_line ''Last-Modified'' (formatdate w (st_mtime f))]
                     @ no_cache_lines @ [CRLF])\<rparr>)"
proof -
  let ?h = "(new_handler cwd)\<lparr>command := Some ''GET'', request_version := v,
              close_connection := True, path := p, headers := hs\<rparr>"
  have v: "request_version ?h \<noteq> ''HTTP/0.9''" using assms(6) by (simp add: new_handler_def)
  have d: "\<not> isdir w (translate w (directory ?h) (path ?h))"
    using assms(10) by (simp add: new_handler_def)
  have s: "\<not> ends_with_slash (translate w (directory ?h) (path ?h))"
    using assms(11) by (simp add: new_handler_def)
  have o: "open_rb w (translate w (directory ?h) (path ?h)) = Some f"
    using assms(12) by (simp add: new_handler_def)
  have n: "\<not> not_modified w ?h f"
    by (rule unconditional) (simp add: assms(9))
  show ?thesis
    unfolding handle_versioned(1) [OF assms(1,2,3,4,5,7,8) refl] do_GET_ok [OF v d s o n]
    unfolding fresh_request by simp
qed


lemma handle_request_noblock_first:
  "handle_request_noblock end_headers cwd (w, r # rs) =
     (case handle_one_request end_headers w r (new_handler cwd) of
        Return _ h \<Rightarrow> Handled (wfile h) None
      | Raise e h \<Rightarrow> Handled (wfile h) (Some e))"
proof -
  have c: "(new_handler cwd)\<lparr>close_connection := True\<rparr> = new_handler cwd"
    by (simp add: new_handler_def)
  show ?thesis
    by (cases "handle_one_request end_headers w r (new_handler cwd)")
       (simp_all add: handle_request_noblock_def finish_request_def handle_once c)
qed

lemma plain_getD:
  assumes "plain_get r p"
  obtains v major minor hs where
    "raw_requestline r \<noteq> []" "length (raw_requestline r) \<le> 65536"
    "split_ws (rstrip_crlf (raw_requestline r)) = [''GET'', p, v]"
    "parse_version v = Some (major, minor)" "major < 2" "v \<noteq> ''HTTP/0.9''"
    "header_section r = Parsed hs" "\<not> starts_with ''//'' p"
    "hdr_get hs ''If-Modified-Since'' = None"
  using assms
  by (auto simp add: plain_get_def split: list.splits option.splits header_parse.splits)

lemma served_file:
  assumes "plain_get r p" "readable w (translate w cwd p) f"
  shows "handle_request_noblock end_headers cwd (w, r # rs) =
           Handled (file_response w (translate w cwd p) f) None"
proof -
  from assms(1) obtain v major minor hs where g:
    "raw_requestline r \<noteq> []" "length (raw_requestline r) \<le> 65536"
    "split_ws (rstrip_crlf (raw_requestline r)) = [''GET'', p, v]"
    "parse_version v = Some (major, minor)" "major < 2" "v \<noteq> ''HTTP/0.9''"
    "header_section r = Parsed hs" "\<not> starts_with ''//'' p"
    "hdr_get hs ''If-Modified-Since'' = None"
    by (rule plain_getD)
  have f: "\<not> isdir w (translate w cwd p)" "\<not> ends_with_slash (translate w cwd p)"
    "open_rb w (translate w cwd p) = Some f" "read_fails (contents f) = None"
    using assms(2) by (simp_all add: readable_def)
  show ?thesis
    unfolding handle_request_noblock_first opened_response [OF g f(1,2,3)]
    using f(4) by (simp add: copyfile_def file_response_def)
qed

subsection \<open>Sample runs\<close>

lemma sample_words:
  "split_ws (rstrip_crlf (raw_requestline get_request)) = [''GET'', ''/a.txt'', ''HTTP/1.1'']"
  "split_ws (rstrip_crlf (raw_requestline old_get_request)) = [''GET'', ''/a.txt'']"
  "split_ws (rstrip_crlf (raw_requestline get_locked_request)) = [''GET'', ''/locked.txt'', ''HTTP/1.1'']"
  "split_ws (rstrip_crlf (raw_requestline get_missing_request)) = [''GET'', ''/missing.txt'', ''HTTP/1.1'']"
  "split_ws (rstrip_crlf (raw_requestline head_missing_request)) = [''HEAD'', ''/missing.txt'', ''HTTP/1.1'']"
  "split_ws (rstrip_crlf (raw_requestline conditional_request)) = [''GET'', ''/a.txt'', ''HTTP/1.1'']"
  by code_simp+

lemma sample_lines:
  "raw_requestline get_request \<noteq> []" "length (raw_requestline get_request) \<le> 65536"
  "raw_requestline old_get_request \<noteq> []" "length (raw_requestline old_get_request) \<le> 65536"
  "raw_requestline get_locked_request \<noteq> []" "length (raw_requestline get_locked_request) \<le> 65536"
  "raw_requestline get_missing_request \<noteq> []" "length (raw_requestline get_missing_request) \<le> 65536"
  "raw_requestline head_missing_request \<noteq> []" "length (raw_requestline head_missing_request) \<le> 65536"
  "raw_requestline conditional_request \<noteq> []" "length (raw_requestline conditional_request) \<le> 65536"
  by (simp_all add: get_request_def old_get_request_def get_locked_request_def
      get_missing_request_def head_missing_request_def conditional_request_def CRLF_def)

lemma sample_sections:
  "header_section get_request = Parsed []" "header_section old_get_request = Parsed []"
  "header_section get_locked_request = Parsed []" "header_section get_missing_request = Parsed []"
  "header_section head_missing_request = Parsed []"
  "header_section conditional_request =
     Parsed [(''If-Modified-Since'', ''Thu, 01 Jan 1970 00:01:40 GMT'')]"
  by (simp_all add: get_request_def old_get_request_def get_locked_request_def
      get_missing_request_def head_missing_request_def conditional_request_def)

lemma sample_version: "parse_version ''HTTP/1.1'' = Some (1, 1)"
  by code_simp

lemma sample_paths:
  "\<not> starts_with ''//'' ''/a.txt''" "\<not> starts_with ''//'' ''/locked.txt''"
  "\<not> starts_with ''//'' ''/missing.txt''"
  "\<not> ends_with_slash ''/srv/a.txt''" "\<not> ends_with_slash ''/srv/locked.txt''"
  "\<not> ends_with_slash ''/srv/missing.txt''"
  by (simp_all add: starts_with_def ends_with_slash_def)

lemma sample_numbers: "str_nat 200 = ''200''" "str_nat 404 = ''404''" "str_nat 304 = ''304''"
  "str_nat 5 = ''5''" "str_nat 11 = ''11''"
  by code_simp+

lemma new_handler_accepts:
  "(new_handler ''/srv'')\<lparr>command := Some cmd, request_version := v, close_connection := True,
      path := p, headers := hs\<rparr> = accepted cmd p v hs"
  by (simp add: new_handler_def accepted_def)

lemma handle_get_request:
  "handle_one_request end_headers sample_world get_request (new_handler ''/srv'') =
     do_GET end_headers sample_world (accepted ''GET'' ''/a.txt'' ''HTTP/1.1'' [])"
proof -
  have p: "parse_request end_headers sample_world get_request (new_handler ''/srv'') =
     Return True (accepted ''GET'' ''/a.txt'' ''HTTP/1.1'' [])"
    using parse_request_versioned [OF sample_words(1) sample_version _ sample_sections(1)
        sample_paths(1), of end_headers sample_world "new_handler ''/srv''"]
    by (simp add: new_handler_accepts)
  show ?thesis
    by (rule handle_one_request_parsed(1) [OF sample_lines(1,2) p]) (simp add: accepted_def)
qed

lemma handle_accepted:
  assumes "split_ws (rstrip_crlf (raw_requestline r)) = [cmd, p, ''HTTP/1.1'']"
    "header_section r = Parsed hs" "\<not> starts_with ''//'' p"
    "raw_requestline r \<noteq> []" "length (raw_requestline r) \<le> 65536"
  shows "cmd = ''GET'' \<Longrightarrow> handle_one_request end_headers w r (new_handler ''/srv'') =
           do_GET end_headers w (accepted ''GET'' p ''HTTP/1.1'' hs)"
    and "cmd = ''HEAD'' \<Longrightarrow> handle_one_request end_headers w r (new_handler ''/srv'') =
           do_HEAD end_headers w (accepted ''HEAD'' p ''HTTP/1.1'' hs)"
proof -
  have p: "parse_request end_headers w r (new_handler ''/srv'') =
     Return True (accepted cmd p ''HTTP/1.1'' hs)"
    using parse_request_versioned [OF assms(1) sample_version _ assms(2,3),
        of end_headers w "new_handler ''/srv''"]
    by (simp add: new_handler_accepts)
  show "cmd = ''GET'' \<Longrightarrow> handle_one_request end_headers w r (new_handler ''/srv'') =
           do_GET end_headers w (accepted ''GET'' p ''HTTP/1.1'' hs)"
    using handle_one_request_parsed(1) [OF assms(4,5) p] by (simp add: accepted_def)
  show "cmd = ''HEAD'' \<Longrightarrow> handle_one_request end_headers w r (new_handler ''/srv'') =
           do_HEAD end_headers w (accepted ''HEAD'' p ''HTTP/1.1'' hs)"
    using handle_one_request_parsed(2) [OF assms(4,5) p] by (simp add: accepted_def)
qed


lemma sample_not_modified:
  "\<not> not_modified w (accepted cmd p v []) f"
  "not_modified sample_world
     (accepted cmd p v [(''If-Modified-Since'', ''Thu, 01 Jan 1970 00:01:40 GMT'')]) sample_file"
  "not_modified changed_world
     (accepted cmd p v [(''If-Modified-Since'', ''Thu, 01 Jan 1970 00:01:40 GMT'')])
     \<lparr>contents = \<lparr>data = ''HELLO AGAIN'', read_fails = None\<rparr>, st_size = 11, st_mtime = 100\<rparr>"
proof -
  have l: "lower ''If-Modified-Since'' = ''if-modified-since''"
    "lower ''If-None-Match'' = ''if-none-match''" by code_simp+
  show "\<not> not_modified w (accepted cmd p v []) f"
    by (simp add: not_modified_def accepted_def hdr_get_def)
  show "not_modified sample_world
     (accepted cmd p v [(''If-Modified-Since'', ''Thu, 01 Jan 1970 00:01:40 GMT'')]) sample_file"
    by (simp add: not_modified_def accepted_def hdr_get_def l sample_world_def sample_file_def)
  show "not_modified changed_world
     (accepted cmd p v [(''If-Modified-Since'', ''Thu, 01 Jan 1970 00:01:40 GMT'')])
     \<lparr>contents = \<lparr>data = ''HELLO AGAIN'', read_fails = None\<rparr>, st_size = 11, st_mtime = 100\<rparr>"
    by (simp add: not_modified_def accepted_def hdr_get_def l sample_world_def changed_world_def)
qed


lemma sample_status:
  "status_line 200 (reason sample_world 200 None) = ''HTTP/1.0 200 OK'' @ CRLF"
  "status_line 304 (reason sample_world 304 None) = ''HTTP/1.0 304 Not Modified'' @ CRLF"
  "status_line 304 (reason changed_world 304 None) = ''HTTP/1.0 304 Not Modified'' @ CRLF"
  "status_line 200 (reason broken_world 200 None) = ''HTTP/1.0 200 OK'' @ CRLF"
  "status_line 404 ''File not found'' = ''HTTP/1.0 404 File not found'' @ CRLF"
  by (simp_all add: status_line_def reason_def sample_world_def changed_world_def
      broken_world_def sample_responses_def protocol_version_def sample_numbers)

lemma run_get:
  "handle_one_request end_headers sample_world get_request (new_handler ''/srv'') =
     Return () ((accepted ''GET'' ''/a.txt'' ''HTTP/1.1'' [])\<lparr>headers_buffer := Some [],
       wfile := concat ([''HTTP/1.0 200 OK'' @ CRLF,
                         ''Server: SimpleHTTP/0.6 Python/3.11.10'' @ CRLF,
                         ''Date: Thu, 01 Jan 1970 00:01:40 GMT'' @ CRLF,
                         ''Content-type: text/plain'' @ CRLF,
                         ''Content-Length: 5'' @ CRLF,
                         ''Last-Modified: Thu, 01 Jan 1970 00:01:40 GMT'' @ CRLF]
                        @ no_cache_lines @ [CRLF]) @ ''hello''\<rparr>)"
proof -
  let ?h = "accepted ''GET'' ''/a.txt'' ''HTTP/1.1'' []"
  have t: "translate sample_world (directory ?h) (path ?h) = ''/srv/a.txt''"
    by (simp add: accepted_def sample_world_def)
  have g: "do_GET end_headers sample_world ?h =
          copyfile (contents sample_file) (?h\<lparr>headers_buffer := Some [],
             wfile := wfile ?h @ concat (buffered ?h @
               [status_line 200 (reason sample_world 200 None),
                header_line ''Server'' (version_string sample_world),
                header_line ''Date'' (formatdate sample_world (time_now sample_world)),
                header_line ''Content-type'' (guess_type sample_world (translate sample_world (directory ?h) (path ?h))),
                header_line ''Content-Length'' (str_nat (st_size sample_file)),
                header_line ''Last-Modified'' (formatdate sample_world (st_mtime sample_file))]
               @ no_cache_lines @ [CRLF])\<rparr>)"
    by (rule do_GET_ok)
       (simp_all add: t sample_not_modified(1) sample_paths, simp_all add: accepted_def sample_world_def)
  show ?thesis
    unfolding handle_accepted(1) [OF sample_words(1) sample_sections(1) sample_paths(1) sample_lines(1,2) refl] g
    by (simp add: copyfile_def sample_file_def sample_status header_line_def sample_numbers
        buffered_def, simp add: accepted_def sample_world_def)
qed







lemma no_break_escape: "no_break (concat (map sample_escape s))"
  by (induction s) (simp_all add: sample_escape_def)

lemma clean_samples: "clean sample_world" "clean changed_world" "clean broken_world"
proof -
  have r: "case sample_responses c of None \<Rightarrow> True | Some (short, long) \<Rightarrow> no_break short" for c
    by (simp add: sample_responses_def)
  show "clean sample_world" "clean changed_world" "clean broken_world"
    using r by (simp_all add: clean_def sample_world_def changed_world_def broken_world_def
        no_break_escape, simp_all add: no_break_def)
qed



lemma sample_request_facts:
  "(1::nat) < 2" "''HTTP/1.1'' \<noteq> ''HTTP/0.9''" "hdr_get [] ''If-Modified-Since'' = None"
  by (simp_all add: hdr_get_def)

lemma sample_plain_get: "plain_get get_request ''/a.txt''"
  by (simp add: plain_get_def sample_lines sample_words sample_sections sample_version
      sample_paths sample_request_facts)

lemma sample_readable:
  "readable sample_world (translate sample_world ''/srv'' ''/a.txt'') sample_file"
  "readable changed_world (translate changed_world ''/srv'' ''/a.txt'')
     \<lparr>contents = \<lparr>data = ''HELLO AGAIN'', read_fails = None\<rparr>, st_size = 11, st_mtime = 100\<rparr>"
  by (simp_all add: readable_def sample_world_def changed_world_def sample_file_def
      ends_with_slash_def)

lemma sample_free: "\<not> socket_fails sample_system" "\<not> bind_fails sample_system ''127.0.0.1'' 3000"
  "\<not> listen_fails sample_system" "stdout_line_buffered sample_system"
  "getcwd sample_system = ''/srv''"
  "\<not> socket_fails piped_system" "\<not> bind_fails piped_system ''127.0.0.1'' 3000"
  "\<not> listen_fails piped_system" "\<not> stdout_line_buffered piped_system"
  "getcwd piped_system = ''/srv''"
  by (simp_all add: sample_system_def piped_system_def)


section \<open>Claims about the header override\<close>

text \<open>
  C2. The override only adds. For a handler in which the base class has buffered a status
  line and headers \<open>b\<close>, the inherited \<open>end_headers\<close> writes \<open>b\<close> and the blank line; the
  override writes \<open>b\<close> unchanged, the three no-cache lines, and the blank line. Both leave
  every other attribute of the handler as it was (so whatever body is written afterwards
  is the same), and for an HTTP/0.9 request both write nothing.
\<close>

theorem end_headers_only_adds:
  assumes "headers_buffer h = Some b"
  shows "(request_version h \<noteq> ''HTTP/0.9'' \<longrightarrow>
            base_end_headers h =
              Return () (h\<lparr>headers_buffer := Some [], wfile := wfile h @ concat b @ CRLF\<rparr>) \<and>
            end_headers h =
              Return () (h\<lparr>headers_buffer := Some [],
                           wfile := wfile h @ concat b @ concat no_cache_lines @ CRLF\<rparr>)) \<and>
         (request_version h = ''HTTP/0.9'' \<longrightarrow>
            base_end_headers h = Return () h \<and> end_headers h = Return () h)"
proof (intro conjI impI)
  assume v: "request_version h \<noteq> ''HTTP/0.9''"
  show "base_end_headers h =
          Return () (h\<lparr>headers_buffer := Some [], wfile := wfile h @ concat b @ CRLF\<rparr>)"
    using v assms by (simp add: base_end_headers_def flush_headers_def)
  show "end_headers h =
          Return () (h\<lparr>headers_buffer := Some [],
                       wfile := wfile h @ concat b @ concat no_cache_lines @ CRLF\<rparr>)"
    using end_headers_new [OF v] assms by (simp add: buffered_def)
next
  assume v: "request_version h = ''HTTP/0.9''"
  show "base_end_headers h = Return () h"
    using v by (simp add: base_end_headers_def)
  show "end_headers h = Return () h"
    using v by (rule end_headers_old)
qed

theorem end_headers_only_adds_witness:
  "headers_buffer sample_handler = Some [''HTTP/1.0 200 OK'' @ CRLF] \<and>
   base_end_headers sample_handler =
     Return () (sample_handler\<lparr>headers_buffer := Some [],
                  wfile := ''HTTP/1.0 200 OK'' @ CRLF @ CRLF\<rparr>) \<and>
   end_headers sample_handler =
     Return () (sample_handler\<lparr>headers_buffer := Some [],
                  wfile := ''HTTP/1.0 200 OK'' @ CRLF @ concat no_cache_lines @ CRLF\<rparr>)"
proof -
  have b: "headers_buffer sample_handler = Some [''HTTP/1.0 200 OK'' @ CRLF]"
    by (simp add: sample_handler_def)
  have v: "request_version sample_handler \<noteq> ''HTTP/0.9''"
    by (simp add: sample_handler_def)
  have w: "wfile sample_handler = []"
    by (simp add: sample_handler_def)
  show ?thesis
    using end_headers_only_adds [OF b] v b w by simp
qed


section \<open>Claims about the headers of whole responses\<close>

lemma fresh_handler: "buffered (new_handler cwd) = []"
  by (simp add: buffered_def new_handler_def)




text \<open>
  C10. Under the same conditions the header block read off the wire is the lines \<open>L\<close> of
  the base class, at least the status line, followed by the three no-cache lines, which
  are thus the last lines before the blank line that ends the block; and each of the
  three occurs exactly once among the lines of the block.
\<close>

theorem no_cache_lines_last_and_once:
  assumes "clean w" "buffered h = []"
  shows "request_version (state_of (handle_one_request end_headers w r h)) \<noteq> ''HTTP/0.9'' \<and>
         wfile (state_of (handle_one_request end_headers w r h)) \<noteq> wfile h \<longrightarrow>
         take (length (wfile h)) (wfile (state_of (handle_one_request end_headers w r h))) =
           wfile h \<and>
         (\<exists>L B. header_block (drop (length (wfile h))
                   (wfile (state_of (handle_one_request end_headers w r h)))) =
                   Some (L @ no_cache_lines, B) \<and>
                 L \<noteq> [] \<and>
                 (\<forall>l \<in> set no_cache_lines. count_list (L @ no_cache_lines) l = 1))"
proof (intro impI conjI)
  assume a: "request_version (state_of (handle_one_request end_headers w r h)) \<noteq> ''HTTP/0.9'' \<and>
         wfile (state_of (handle_one_request end_headers w r h)) \<noteq> wfile h"
  show "take (length (wfile h)) (wfile (state_of (handle_one_request end_headers w r h))) =
            wfile h"
    using handled_prefix [OF assms] a by blast
  obtain L B where L: "header_block (drop (length (wfile h))
                   (wfile (state_of (handle_one_request end_headers w r h)))) =
                 Some (L @ no_cache_lines, B)" "list_all plain_line L" "L \<noteq> []"
    using handled_wire [OF assms] a by blast
  have "\<forall>l \<in> set no_cache_lines. count_list (L @ no_cache_lines) l = 1"
    using count_no_cache_block [OF L(2)] by blast
  then show "\<exists>L B. header_block (drop (length (wfile h))
                   (wfile (state_of (handle_one_request end_headers w r h)))) =
                   Some (L @ no_cache_lines, B) \<and>
                 L \<noteq> [] \<and>
                 (\<forall>l \<in> set no_cache_lines. count_list (L @ no_cache_lines) l = 1)"
    using L(1,3) by blast
qed

theorem no_cache_lines_last_and_once_witness:
  "clean sample_world \<and> buffered (new_handler ''/srv'') = [] \<and>
   request_version (state_of (handle_one_request end_headers sample_world get_request
      (new_handler ''/srv''))) \<noteq> ''HTTP/0.9'' \<and>
   wfile (state_of (handle_one_request end_headers sample_world get_request
      (new_handler ''/srv''))) \<noteq> wfile (new_handler ''/srv'') \<and>
   (\<exists>L B. header_block (drop (length (wfile (new_handler ''/srv'')))
             (wfile (state_of (handle_one_request end_headers sample_world get_request
                (new_handler ''/srv''))))) = Some (L @ no_cache_lines, B) \<and>
          L \<noteq> [] \<and>
          count_list (L @ no_cache_lines)
            (header_line ''Cache-Control'' ''no-cache, no-store, must-revalidate'') = 1 \<and>
          count_list (L @ no_cache_lines) (header_line ''Pragma'' ''no-cache'') = 1 \<and>
          count_list (L @ no_cache_lines) (header_line ''Expires'' ''0'') = 1)"
proof -
  have v: "request_version (state_of (handle_one_request end_headers sample_world get_request
      (new_handler ''/srv''))) \<noteq> ''HTTP/0.9''"
    by (simp add: run_get state_of_def accepted_def)
  have s: "wfile (state_of (handle_one_request end_headers sample_world get_request
      (new_handler ''/srv''))) \<noteq> wfile (new_handler ''/srv'')"
    unfolding run_get by (simp add: state_of_def new_handler_def)
  have m: "header_line ''Cache-Control'' ''no-cache, no-store, must-revalidate'' \<in> set no_cache_lines"
    "header_line ''Pragma'' ''no-cache'' \<in> set no_cache_lines"
    "header_line ''Expires'' ''0'' \<in> set no_cache_lines"
    by (simp_all add: no_cache_lines_def header_line_def)
  show ?thesis
    using no_cache_lines_last_and_once [OF clean_samples(1) fresh_handler [of "''/srv''"],
        of get_request]
      v s m clean_samples(1) fresh_handler [of "''/srv''"]
    by blast
qed

section \<open>Claims about the responses to single requests\<close>










section \<open>Claims about the main block\<close>




lemma serve_forever_no_stdout: "filter is_stdout (serve_forever eh cwd conns) = []"
  by (induction conns)
     (simp_all add: serve_forever_def handle_request_noblock_def split: outcome.splits)

lemma main_running:
  assumes "\<not> socket_fails sys" "\<not> bind_fails sys ''127.0.0.1'' 3000" "\<not> listen_fails sys"
  shows "main sys conns =
           \<lparr>trace = [Socket, SetReuseAddr, Bind ''127.0.0.1'' 3000, Listen] @
                     (if stdout_line_buffered sys
                      then [Stdout (''Dev server: http://localhost:3000 (no-cache)'' @ NL)]
                      else []) @
                     serve_forever end_headers (getcwd sys) conns,
            unflushed = (if stdout_line_buffered sys then []
                         else ''Dev server: http://localhost:3000 (no-cache)'' @ NL),
            status = Running\<rparr>"
  using assms by (simp add: main_def HTTPServer_init_def print_def)

lemma serve_forever_append:
  "serve_forever eh cwd (xs @ ys) = serve_forever eh cwd xs @ serve_forever eh cwd ys"
  by (simp add: serve_forever_def)

lemma serve_forever_one:
  "serve_forever eh cwd (c # cs) = handle_request_noblock eh cwd c # serve_forever eh cwd cs"
  "serve_forever eh cwd [] = []"
  by (simp_all add: serve_forever_def)

lemma serve_forever_no_bind: "filter is_bind (serve_forever eh cwd conns) = []"
  by (induction conns)
     (simp_all add: serve_forever_def handle_request_noblock_def split: outcome.splits)





text \<open>
  C8, as amended. When the listening socket is set up, the process listens on it, calls
  \<^verbatim>\<open>print\<close> once with a line that names the URL \<^verbatim>\<open>http://localhost:3000\<close>, and then
  handles the connections as they arrive: the first connection, here one that asks for a
  readable file, is answered right after the call. If standard output is line-buffered
  (a terminal) or write-through, the line and a newline are written to standard output
  exactly once, after \<^verbatim>\<open>listen\<close> and before the first connection is handled, also when no
  connection ever arrives. If standard output is block-buffered, nothing is written to
  standard output while the server runs: the line waits in the buffer.
\<close>

theorem startup_line:
  assumes "\<not> socket_fails sys" "\<not> bind_fails sys ''127.0.0.1'' 3000" "\<not> listen_fails sys"
    and "plain_get r p" "readable w (translate w (getcwd sys) p) f"
  shows "trace (main sys ((w, r # rs) # conns)) =
           [Socket, SetReuseAddr, Bind ''127.0.0.1'' 3000, Listen] @
           (if stdout_line_buffered sys
            then [Stdout (''Dev server: http://localhost:3000 (no-cache)'' @ NL)] else []) @
           [Handled (file_response w (translate w (getcwd sys) p) f) None] @
           serve_forever end_headers (getcwd sys) conns \<and>
         trace (main sys []) =
           [Socket, SetReuseAddr, Bind ''127.0.0.1'' 3000, Listen] @
           (if stdout_line_buffered sys
            then [Stdout (''Dev server: http://localhost:3000 (no-cache)'' @ NL)] else []) \<and>
         filter is_stdout (trace (main sys ((w, r # rs) # conns))) =
           (if stdout_line_buffered sys
            then [Stdout (''Dev server: http://localhost:3000 (no-cache)'' @ NL)] else []) \<and>
         unflushed (main sys ((w, r # rs) # conns)) =
           (if stdout_line_buffered sys then []
            else ''Dev server: http://localhost:3000 (no-cache)'' @ NL) \<and>
         status (main sys ((w, r # rs) # conns)) = Running \<and>
         contains ''http://localhost:3000'' ''Dev server: http://localhost:3000 (no-cache)''"
proof -
  have c: "contains ''http://localhost:3000'' ''Dev server: http://localhost:3000 (no-cache)''"
    by code_simp
  show ?thesis
    unfolding main_running [OF assms(1,2,3)] serve_forever_one served_file [OF assms(4,5)]
    using c by (simp add: serve_forever_no_stdout)
qed

theorem startup_line_witness:
  "\<not> socket_fails sample_system \<and> \<not> bind_fails sample_system ''127.0.0.1'' 3000 \<and>
   \<not> listen_fails sample_system \<and> stdout_line_buffered sample_system \<and>
   plain_get get_request ''/a.txt'' \<and>
   readable sample_world (translate sample_world ''/srv'' ''/a.txt'') sample_file \<and>
   trace (main sample_system [(sample_world, [get_request])]) =
     [Socket, SetReuseAddr, Bind ''127.0.0.1'' 3000, Listen,
      Stdout (''Dev server: http://localhost:3000 (no-cache)'' @ NL),
      Handled (file_response sample_world (translate sample_world ''/srv'' ''/a.txt'') sample_file)
        None] \<and>
   trace (main sample_system []) =
     [Socket, SetReuseAddr, Bind ''127.0.0.1'' 3000, Listen,
      Stdout (''Dev server: http://localhost:3000 (no-cache)'' @ NL)] \<and>
   unflushed (main sample_system [(sample_world, [get_request])]) = []"
proof -
  have r: "readable sample_world (translate sample_world (getcwd sample_system) ''/a.txt'')
             sample_file"
    using sample_readable(1) by (simp add: sample_free)
  note th = startup_line [OF sample_free(1,2,3) sample_plain_get r, of "[]" "[]"]
  show ?thesis
    using th sample_free(1,2,3,4) sample_plain_get sample_readable(1)
    by (simp add: sample_free(4,5) serve_forever_one)
qed

text \<open>
  C8 as stated fails when standard output is a pipe or a file: the server has handled a
  connection, nothing has been written to standard output, and the line is still in the
  buffer, because \<^verbatim>\<open>print\<close> is called without \<^verbatim>\<open>flush\<close>.
\<close>

theorem piped_output_is_not_written:
  "\<not> stdout_line_buffered piped_system \<and>
   trace (main piped_system [(sample_world, [get_request])]) =
     [Socket, SetReuseAddr, Bind ''127.0.0.1'' 3000, Listen,
      Handled (file_response sample_world (translate sample_world ''/srv'' ''/a.txt'') sample_file)
        None] \<and>
   filter is_stdout (trace (main piped_system [(sample_world, [get_request])])) = [] \<and>
   unflushed (main piped_system [(sample_world, [get_request])]) =
     ''Dev server: http://localhost:3000 (no-cache)'' @ NL \<and>
   status (main piped_system [(sample_world, [get_request])]) = Running"
proof -
  have h: "handle_request_noblock end_headers ''/srv'' (sample_world, [get_request]) =
      Handled (file_response sample_world (translate sample_world ''/srv'' ''/a.txt'') sample_file)
        None"
    by (rule served_file [OF sample_plain_get sample_readable(1)])
  show ?thesis
    unfolding main_running [OF sample_free(6,7,8)] serve_forever_one sample_free(10) h
    by (simp add: sample_free(9))
qed

text \<open>
  C7. The only address the process binds is 127.0.0.1, a loopback address, on port 3000,
  and it binds it once. The document root is the working directory of the process, for
  every connection: after any connections whatever, a request for a path \<open>p\<close> is answered
  with the file that \<open>p\<close> names under the working directory.
\<close>

theorem listener_configuration:
  "(\<not> socket_fails sys \<longrightarrow> filter is_bind (trace (main sys conns)) = [Bind ''127.0.0.1'' 3000]) \<and>
   is_loopback ''127.0.0.1'' \<and>
   (\<not> socket_fails sys \<and> \<not> bind_fails sys ''127.0.0.1'' 3000 \<and> \<not> listen_fails sys \<and>
    plain_get r p \<and> readable w (translate w (getcwd sys) p) f \<longrightarrow>
      trace (main sys (conns @ [(w, r # rs)])) =
        trace (main sys conns) @
        [Handled (file_response w (translate w (getcwd sys) p) f) None])"
proof (intro conjI impI)
  show "filter is_bind (trace (main sys conns)) = [Bind ''127.0.0.1'' 3000]" if "\<not> socket_fails sys"
    using that by (simp add: main_def HTTPServer_init_def print_def serve_forever_no_bind)
  show "is_loopback ''127.0.0.1''" by (rule is_loopback_host)
  assume a: "\<not> socket_fails sys \<and> \<not> bind_fails sys ''127.0.0.1'' 3000 \<and> \<not> listen_fails sys \<and>
    plain_get r p \<and> readable w (translate w (getcwd sys) p) f"
  then have i: "\<not> socket_fails sys" "\<not> bind_fails sys ''127.0.0.1'' 3000" "\<not> listen_fails sys"
    and g: "plain_get r p" and f: "readable w (translate w (getcwd sys) p) f" by simp_all
  show "trace (main sys (conns @ [(w, r # rs)])) =
        trace (main sys conns) @
        [Handled (file_response w (translate w (getcwd sys) p) f) None]"
    unfolding main_running [OF i] serve_forever_append serve_forever_one served_file [OF g f]
    by simp
qed

theorem listener_configuration_witness:
  "\<not> socket_fails sample_system \<and> \<not> bind_fails sample_system ''127.0.0.1'' 3000 \<and>
   \<not> listen_fails sample_system \<and> getcwd sample_system = ''/srv'' \<and>
   plain_get get_request ''/a.txt'' \<and>
   readable sample_world (translate sample_world ''/srv'' ''/a.txt'') sample_file \<and>
   filter is_bind (trace (main sample_system [(sample_world, [old_get_request])])) =
     [Bind ''127.0.0.1'' 3000] \<and>
   trace (main sample_system ([(sample_world, [old_get_request])] @ [(sample_world, [get_request])])) =
     trace (main sample_system [(sample_world, [old_get_request])]) @
     [Handled (file_response sample_world (translate sample_world ''/srv'' ''/a.txt'') sample_file)
        None]"
proof -
  note th = listener_configuration [of sample_system "[(sample_world, [old_get_request])]"
      get_request "''/a.txt''" sample_world sample_file "[]"]
  have r: "readable sample_world (translate sample_world (getcwd sample_system) ''/a.txt'')
             sample_file"
    using sample_readable(1) by (simp add: sample_free)
  show ?thesis
    using th sample_free(1,2,3,5) sample_plain_get sample_readable(1) r
    by (simp add: sample_free(5))
qed




end
